theory Spec2Isabelle
  imports Complex_Main
begin

section \<open>Python errors as values\<close>

text \<open>
  Every exception the modelled code can raise is a constructor of \<open>error\<close>;
  a function that may raise returns \<open>error + 'a\<close>, with \<open>Inl\<close> for the exception.
\<close>

datatype error =
    TypeError
  | KeyError
  | AttributeError
  | IndexError
  | ZeroDivisionError
  | ValueError
  | RuntimeError
  | QhullError

section \<open>amlearn/utils/check.py\<close>

text \<open>
  \<open>sys.float_info.max\<close> of an IEEE double: \<open>(2 - 2^-52) * 2^1023\<close>.
\<close>

definition float_max :: real where
  "float_max = (2 - 1 / 2 ^ 52) * 2 ^ 1023"

text \<open>
  \<open>check_within(x, criterion, criterion_type="range")\<close>. The number \<open>x\<close> is a real,
  an entry of \<open>criterion\<close> is \<open>None\<close> or a number. Indexing \<open>criterion[0]\<close>,
  \<open>criterion[1]\<close> on a shorter list raises inside the \<open>try\<close>, which re-raises a
  \<open>ValueError\<close>; longer lists are accepted and only their first two entries are read.
  The test \<open>criterion_type is "range"\<close> is modelled as equality of the strings.
\<close>

definition check_within :: "real \<Rightarrow> real option list \<Rightarrow> string \<Rightarrow> error + bool" where
  "check_within x criterion criterion_type =
     (if criterion_type = ''range'' then
        (case criterion of
           c0 # c1 # _ \<Rightarrow>
             (let range_lw = (case c0 of Some v \<Rightarrow> v | None \<Rightarrow> - float_max);
                  range_hi = (case c1 of Some v \<Rightarrow> v | None \<Rightarrow> float_max)
              in Inr (x > range_lw \<and> x < range_hi))
         | _ \<Rightarrow> Inl ValueError)
      else if criterion_type = ''value'' then Inr (Some x \<in> set criterion)
      else Inl RuntimeError)"

section \<open>Python strings\<close>

text \<open>\<open>str(n)\<close> for an integer: its decimal digits, with a leading minus sign.\<close>

definition digit_char :: "nat \<Rightarrow> char" where
  "digit_char d = ''0123456789'' ! d"

function str_nat :: "nat \<Rightarrow> string" where
  "str_nat n = (if n < 10 then [digit_char n] else str_nat (n div 10) @ [digit_char (n mod 10)])"
  by pat_completeness auto
termination
  by (relation "measure (\<lambda>n. n)") auto

declare str_nat.simps [simp del]

definition str_int :: "int \<Rightarrow> string" where
  "str_int i = (if i < 0 then CHR ''-'' # str_nat (nat (- i)) else str_nat (nat i))"

text \<open>
  \<open>s.replace(old, new)\<close>: the occurrences of \<open>old\<close> are replaced from the left, without
  overlap. For an empty \<open>old\<close> Python puts \<open>new\<close> before every character and at the end.
\<close>

function replace_from :: "string \<Rightarrow> string \<Rightarrow> string \<Rightarrow> string" where
  "replace_from old new [] = []"
| "replace_from old new (c # cs) =
     (if old \<noteq> [] \<and> take (length old) (c # cs) = old
      then new @ replace_from old new (drop (length old) (c # cs))
      else c # replace_from old new cs)"
  by pat_completeness auto
termination
  by (relation "measure (\<lambda>(old, new, s). length s)") auto

definition replace :: "string \<Rightarrow> string \<Rightarrow> string \<Rightarrow> string" where
  "replace s old new =
     (if old = [] then new @ concat (map (\<lambda>c. c # new) s) else replace_from old new s)"

section \<open>PackingOfSite (short\_range\_order.py)\<close>

text \<open>
  A \<open>Site\<close> object carries its identifier, its coordinates, its atom type (the
  attribute \<open>type\<close>) and the list of its neighbour sites.
\<close>

type_synonym coord = "real \<times> real \<times> real"

datatype Site = Site (site_id: int) (coords: coord) (site_type: int) (neighbors: "Site list")

text \<open>
  The attributes of a \<open>scipy.spatial.ConvexHull\<close> the module reads: the facets as
  triples of indices into the point list, the volume and the area.
\<close>

record qhull =
  simplices :: "nat list list"
  volume :: real
  area :: real

text \<open>
  Collaborators of the module whose code is not part of the sources are parameters of
  the model: scipy's \<open>ConvexHull\<close> (which raises on a degenerate point set), the methods
  \<open>nn_coords\<close>, \<open>cn\<close> and \<open>nn_type_dict\<close> of class \<open>Site\<close> (the dictionary as the list of
  its items, in iteration order), \<open>triangle_area\<close> and \<open>triangular_angle\<close> of
  \<open>amlearn.utils.packing\<close>, and the radius table \<open>PTE.json\<close> that \<open>_load_radii\<close> reads.
  \<open>nn_coords\<close> is a method of \<open>Site\<close>, as \<open>convex_hull\<close>, \<open>calculate_hull_facet_angles\<close>
  and \<open>calculate_hull_tetra_angles\<close> call it: \<open>self.site.nn_coords()\<close>.
\<close>

record externals =
  ConvexHull :: "coord list \<Rightarrow> error + qhull"
  nn_coords :: "Site \<Rightarrow> coord list"
  cn :: "Site \<Rightarrow> int"
  nn_type_dict :: "Site \<Rightarrow> (int \<times> int) list"
  triangle_area :: "coord \<Rightarrow> coord \<Rightarrow> coord \<Rightarrow> real"
  triangular_angle :: "coord \<Rightarrow> coord \<Rightarrow> coord \<Rightarrow> real"
  PTE_dict :: "string \<rightharpoonup> (string \<rightharpoonup> real)"

text \<open>
  The object: the three attributes \<open>__init__\<close> assigns, and the attributes that the
  methods create later (\<open>None\<close> while the attribute does not exist, so that reading
  it raises \<open>AttributeError\<close>). The source writes these with a trailing underscore
  (\<^verbatim>\<open>convex_hull_\<close>, \<^verbatim>\<open>neighbors_solid_angle_\<close>, ...); the fields carry the suffix
  \<open>_attr\<close> instead.
\<close>

record PackingOfSite =
  site :: Site
  radii :: "string \<rightharpoonup> (string \<rightharpoonup> real)"
  radius_type :: string
  convex_hull_attr :: "qhull option"
  triangular_angle_lists_attr :: "real list list option"
  solid_angle_lists_attr :: "real list list option"
  neighbors_solid_angle_attr :: "real list option"
  area_list_attr :: "real list option"
  area_interstice_list_attr :: "real list option"

definition PackingOfSite_init ::
  "externals \<Rightarrow> Site \<Rightarrow> (string \<rightharpoonup> (string \<rightharpoonup> real)) option \<Rightarrow> string \<Rightarrow> PackingOfSite" where
  "PackingOfSite_init ext s radii_arg radius_type_arg =
     \<lparr> site = s,
       radii = (case radii_arg of None \<Rightarrow> PTE_dict ext | Some r \<Rightarrow> r),
       radius_type = radius_type_arg,
       convex_hull_attr = None,
       triangular_angle_lists_attr = None,
       solid_angle_lists_attr = None,
       neighbors_solid_angle_attr = None,
       area_list_attr = None,
       area_interstice_list_attr = None \<rparr>"

text \<open>The keyword parameters of \<open>PackingOfSite.__init__(self, site, radii, radius_type)\<close>.\<close>

definition PackingOfSite_parameters :: "string list" where
  "PackingOfSite_parameters = [''site'', ''radii'', ''radius_type'']"

text \<open>
  A call \<open>PackingOfSite(site, k1=..., k2=..., ...)\<close>: Python raises \<open>TypeError\<close> when a
  keyword is not a parameter of \<open>__init__\<close> (which has no \<open>**kwargs\<close>); \<open>keywords\<close> are
  the keyword names of the call.
\<close>

definition PackingOfSite_call ::
  "externals \<Rightarrow> Site \<Rightarrow> string list \<Rightarrow> (string \<rightharpoonup> (string \<rightharpoonup> real)) option \<Rightarrow> string
     \<Rightarrow> error + PackingOfSite" where
  "PackingOfSite_call ext s keywords radii_arg radius_type_arg =
     (if list_all (\<lambda>k. k \<in> set PackingOfSite_parameters) keywords
      then Inr (PackingOfSite_init ext s radii_arg radius_type_arg)
      else Inl TypeError)"

text \<open>\<open>self.radii[str(t)][self.radius_type]\<close>: either lookup may raise \<open>KeyError\<close>.\<close>

definition radius_of :: "PackingOfSite \<Rightarrow> int \<Rightarrow> error + real" where
  "radius_of pos t =
     (case radii pos (str_int t) of
        None \<Rightarrow> Inl KeyError
      | Some entry \<Rightarrow> (case entry (radius_type pos) of None \<Rightarrow> Inl KeyError | Some r \<Rightarrow> Inr r))"

text \<open>\<open>convex_hull\<close>: built on first use, kept in the attribute; a failure of
  \<open>ConvexHull\<close> is not caught.\<close>

definition convex_hull :: "externals \<Rightarrow> PackingOfSite \<Rightarrow> error + (qhull \<times> PackingOfSite)" where
  "convex_hull ext pos =
     (case convex_hull_attr pos of
        Some h \<Rightarrow> Inr (h, pos)
      | None \<Rightarrow>
          (case ConvexHull ext (nn_coords ext (site pos)) of
             Inl e \<Rightarrow> Inl e
           | Inr h \<Rightarrow> Inr (h, pos\<lparr>convex_hull_attr := Some h\<rparr>)))"

text \<open>
  \<open>combine_neighbor_solid_angles\<close>: one accumulator per neighbour, to which the solid
  angle of every facet vertex is added at the vertex's neighbour index.
\<close>

fun add_solid_angles :: "real list \<Rightarrow> (nat \<times> real) list \<Rightarrow> error + real list" where
  "add_solid_angles acc [] = Inr acc"
| "add_solid_angles acc ((idx, a) # rest) =
     (if idx < length acc then add_solid_angles (acc[idx := acc ! idx + a]) rest
      else Inl IndexError)"

fun combine_loop :: "real list \<Rightarrow> (nat list \<times> real list) list \<Rightarrow> error + real list" where
  "combine_loop acc [] = Inr acc"
| "combine_loop acc ((facet, angles) # rest) =
     (case add_solid_angles acc (zip facet angles) of
        Inl e \<Rightarrow> Inl e
      | Inr acc' \<Rightarrow> combine_loop acc' rest)"

definition combine_neighbor_solid_angles ::
  "externals \<Rightarrow> PackingOfSite \<Rightarrow> error + (real list \<times> PackingOfSite)" where
  "combine_neighbor_solid_angles ext pos =
     (case neighbors_solid_angle_attr pos of
        Some nsa \<Rightarrow> Inr (nsa, pos)
      | None \<Rightarrow>
          (case convex_hull ext pos of
             Inl e \<Rightarrow> Inl e
           | Inr (h, pos1) \<Rightarrow>
               (case solid_angle_lists_attr pos1 of
                  None \<Rightarrow> Inl AttributeError
                | Some sal \<Rightarrow>
                    (case combine_loop (replicate (length (neighbors (site pos1))) 0)
                            (zip (simplices h) sal) of
                       Inl e \<Rightarrow> Inl e
                     | Inr nsa \<Rightarrow> Inr (nsa, pos1\<lparr>neighbors_solid_angle_attr := Some nsa\<rparr>)))))"

text \<open>
  \<open>cluster_packed_volume\<close>: the centre's sphere, then one cone per neighbour; a
  neighbour whose solid angle is zero is skipped before its radius is looked up.
\<close>

fun packed_volume_loop :: "PackingOfSite \<Rightarrow> real \<Rightarrow> (Site \<times> real) list \<Rightarrow> error + real" where
  "packed_volume_loop pos packed_volume [] = Inr packed_volume"
| "packed_volume_loop pos packed_volume ((neighbor_site, solid_angle) # rest) =
     (if solid_angle = 0 then packed_volume_loop pos packed_volume rest
      else
        (case radius_of pos (site_type neighbor_site) of
           Inl e \<Rightarrow> Inl e
         | Inr r \<Rightarrow> packed_volume_loop pos (packed_volume + solid_angle * 1 / 3 * r ^ 3) rest))"

definition cluster_packed_volume :: "PackingOfSite \<Rightarrow> error + real" where
  "cluster_packed_volume pos =
     (case radius_of pos (site_type (site pos)) of
        Inl e \<Rightarrow> Inl e
      | Inr rc \<Rightarrow>
          (case neighbors_solid_angle_attr pos of
             None \<Rightarrow> Inl AttributeError
           | Some nsa \<Rightarrow>
               packed_volume_loop pos (4 / 3 * pi * rc ^ 3) (zip (neighbors (site pos)) nsa)))"

text \<open>
  \<open>atomic_packing_efficiency\<close>: the left operand of the division is evaluated first;
  dividing two Python floats raises \<open>ZeroDivisionError\<close> on a zero divisor.
\<close>

definition atomic_packing_efficiency ::
  "externals \<Rightarrow> PackingOfSite \<Rightarrow> error + (real \<times> PackingOfSite)" where
  "atomic_packing_efficiency ext pos =
     (case cluster_packed_volume pos of
        Inl e \<Rightarrow> Inl e
      | Inr cpv \<Rightarrow>
          (case convex_hull ext pos of
             Inl e \<Rightarrow> Inl e
           | Inr (h, pos1) \<Rightarrow>
               (if volume h = 0 then Inl ZeroDivisionError else Inr (cpv / volume h, pos1))))"

text \<open>The table \<open>ideal_ratio_\<close> of \<open>glass_packing_efficiency\<close>.\<close>

definition ideal_ratio :: "int \<rightharpoonup> real" where
  "ideal_ratio = map_of
     [(3, 0.154701), (4, 0.224745), (5, 0.361654), (6, 0.414214),
      (7, 0.518145), (8, 0.616517), (9, 0.709914), (10, 0.798907),
      (11, 0.884003), (12, 0.902113), (13, 0.976006), (14, 1.04733),
      (15, 1.11632), (16, 1.18318), (17, 1.2481), (18, 1.31123),
      (19, 1.37271), (20, 1.43267), (21, 1.49119), (22, 1.5484),
      (23, 1.60436), (24, 1.65915)]"

fun weighted_radius_loop :: "PackingOfSite \<Rightarrow> real \<Rightarrow> (int \<times> int) list \<Rightarrow> error + real" where
  "weighted_radius_loop pos r [] = Inr r"
| "weighted_radius_loop pos r ((t, n) # rest) =
     (case radius_of pos t of
        Inl e \<Rightarrow> Inl e
      | Inr rt \<Rightarrow> weighted_radius_loop pos (r + rt * of_int n) rest)"

text \<open>
  \<open>glass_packing_efficiency\<close>, in the order Python evaluates it: the loop over the
  neighbour types, the division by \<open>cn\<close>, the centre's radius, the division by \<open>r\<close>,
  the lookup in the table, the subtraction.
\<close>

definition glass_packing_efficiency :: "externals \<Rightarrow> PackingOfSite \<Rightarrow> error + real" where
  "glass_packing_efficiency ext pos =
     (case weighted_radius_loop pos 0 (nn_type_dict ext (site pos)) of
        Inl e \<Rightarrow> Inl e
      | Inr r0 \<Rightarrow>
          (if cn ext (site pos) = 0 then Inl ZeroDivisionError
           else
             (let r = r0 / of_int (cn ext (site pos)) in
              (case radius_of pos (site_type (site pos)) of
                 Inl e \<Rightarrow> Inl e
               | Inr rc \<Rightarrow>
                   (if r = 0 then Inl ZeroDivisionError
                    else
                      (case ideal_ratio (cn ext (site pos)) of
                         None \<Rightarrow> Inl KeyError
                       | Some ideal \<Rightarrow> Inr (rc / r - ideal)))))))"

text \<open>
  \<open>calculate_hull_facet_angles\<close>: for every facet and each of its three corners, the
  angle of the triangle at that corner; the two other corners are found through
  \<open>leaf_indices_list\<close>. An index outside a list raises \<open>IndexError\<close>.
\<close>

definition leaf_indices_list :: "(nat \<times> nat) list" where
  "leaf_indices_list = [(1, 2), (0, 2), (0, 1)]"

definition item :: "'a list \<Rightarrow> nat \<Rightarrow> error + 'a" where
  "item xs i = (if i < length xs then Inr (xs ! i) else Inl IndexError)"

fun corner_angles ::
  "externals \<Rightarrow> coord list \<Rightarrow> nat list \<Rightarrow> (nat \<times> (nat \<times> nat)) list \<Rightarrow> error + real list" where
  "corner_angles ext nnc convex_surface_indices [] = Inr []"
| "corner_angles ext nnc convex_surface_indices ((idx, leaf_indices) # rest) =
     (case item nnc idx of
        Inl e \<Rightarrow> Inl e
      | Inr p \<Rightarrow>
          (case item convex_surface_indices (fst leaf_indices) of
             Inl e \<Rightarrow> Inl e
           | Inr i0 \<Rightarrow>
               (case item nnc i0 of
                  Inl e \<Rightarrow> Inl e
                | Inr p0 \<Rightarrow>
                    (case item convex_surface_indices (snd leaf_indices) of
                       Inl e \<Rightarrow> Inl e
                     | Inr i1 \<Rightarrow>
                         (case item nnc i1 of
                            Inl e \<Rightarrow> Inl e
                          | Inr p1 \<Rightarrow>
                              (case corner_angles ext nnc convex_surface_indices rest of
                                 Inl e \<Rightarrow> Inl e
                               | Inr angles \<Rightarrow>
                                   Inr (triangular_angle ext p p0 p1 # angles)))))))"

fun facet_angles :: "externals \<Rightarrow> coord list \<Rightarrow> nat list list \<Rightarrow> error + real list list" where
  "facet_angles ext nnc [] = Inr []"
| "facet_angles ext nnc (convex_surface_indices # rest) =
     (case corner_angles ext nnc convex_surface_indices
             (zip convex_surface_indices leaf_indices_list) of
        Inl e \<Rightarrow> Inl e
      | Inr triangular_angle_list \<Rightarrow>
          (case facet_angles ext nnc rest of
             Inl e \<Rightarrow> Inl e
           | Inr angle_lists \<Rightarrow> Inr (triangular_angle_list # angle_lists)))"

definition calculate_hull_facet_angles ::
  "externals \<Rightarrow> PackingOfSite \<Rightarrow> error + (real list list \<times> PackingOfSite)" where
  "calculate_hull_facet_angles ext pos =
     (case convex_hull ext pos of
        Inl e \<Rightarrow> Inl e
      | Inr (h, pos1) \<Rightarrow>
          (case facet_angles ext (nn_coords ext (site pos1)) (simplices h) of
             Inl e \<Rightarrow> Inl e
           | Inr angle_lists \<Rightarrow>
               Inr (angle_lists, pos1\<lparr>triangular_angle_lists_attr := Some angle_lists\<rparr>)))"

text \<open>
  What \<open>np.array\<close> returns, as far as the module uses it: the array of the rows of a
  coordinate list, or, for an argument that is no sequence (a function or bound method),
  a zero-dimensional array holding that object.
\<close>

datatype ndarray = Rows "coord list" | Object_0d

text \<open>
  \<open>analyze_hull_facet_interstice\<close>. It begins with
  \<open>nn_coords = np.array(self.site.nn_coords)\<close>: the method is not called here, so the
  array is the zero-dimensional one around the bound method. \<open>nn_coords[convex_surface_indices]\<close>
  selects the facet's corner coordinates from an array of rows and raises \<open>IndexError\<close>
  on a zero-dimensional array; \<open>triangle_area(*surface_coords)\<close> takes three coordinates.
  The quotient \<open>packed_area / area\<close> is modelled with Python's float division, which
  raises on a zero area.
\<close>

fun packed_area_loop :: "PackingOfSite \<Rightarrow> real \<Rightarrow> (nat \<times> real) list \<Rightarrow> error + real" where
  "packed_area_loop pos packed_area [] = Inr packed_area"
| "packed_area_loop pos packed_area ((idx, tri_angle) # rest) =
     (if idx < length (neighbors (site pos)) then
        (case radius_of pos (site_type (neighbors (site pos) ! idx)) of
           Inl e \<Rightarrow> Inl e
         | Inr r \<Rightarrow> packed_area_loop pos (packed_area + tri_angle / 2 * r ^ 2) rest)
      else Inl IndexError)"

fun select_coords :: "ndarray \<Rightarrow> nat list \<Rightarrow> error + coord list" where
  "select_coords (Rows cs) idxs =
     (if list_all (\<lambda>i. i < length cs) idxs then Inr (map (\<lambda>i. cs ! i) idxs)
      else Inl IndexError)"
| "select_coords Object_0d idxs = Inl IndexError"

definition call_triangle_area :: "externals \<Rightarrow> coord list \<Rightarrow> error + real" where
  "call_triangle_area ext surface_coords =
     (case surface_coords of
        [a, b, c] \<Rightarrow> Inr (triangle_area ext a b c)
      | _ \<Rightarrow> Inl TypeError)"

fun facet_loop ::
  "externals \<Rightarrow> PackingOfSite \<Rightarrow> ndarray \<Rightarrow> real list \<Rightarrow> real list
     \<Rightarrow> (nat list \<times> real list) list \<Rightarrow> error + (real list \<times> real list)" where
  "facet_loop ext pos nnc area_list area_interstice_list [] =
     Inr (area_list, area_interstice_list)"
| "facet_loop ext pos nnc area_list area_interstice_list
       ((convex_surface_indices, triangular_angle_list) # rest) =
     (case select_coords nnc convex_surface_indices of
        Inl e \<Rightarrow> Inl e
      | Inr surface_coords \<Rightarrow>
          (case packed_area_loop pos 0 (zip convex_surface_indices triangular_angle_list) of
             Inl e \<Rightarrow> Inl e
           | Inr packed_area \<Rightarrow>
               (case call_triangle_area ext surface_coords of
                  Inl e \<Rightarrow> Inl e
                | Inr facet_area \<Rightarrow>
                    (if facet_area = 0 then Inl ZeroDivisionError
                     else facet_loop ext pos nnc (area_list @ [facet_area])
                            (area_interstice_list @ [1 - packed_area / facet_area]) rest))))"

definition analyze_hull_facet_interstice ::
  "externals \<Rightarrow> PackingOfSite \<Rightarrow> error + PackingOfSite" where
  "analyze_hull_facet_interstice ext pos =
     (case convex_hull ext pos of
        Inl e \<Rightarrow> Inl e
      | Inr (h, pos1) \<Rightarrow>
          (case triangular_angle_lists_attr pos1 of
             None \<Rightarrow> Inl AttributeError
           | Some tals \<Rightarrow>
               (case facet_loop ext pos1 Object_0d [] [] (zip (simplices h) tals) of
                  Inl e \<Rightarrow> Inl e
                | Inr (al, ail) \<Rightarrow>
                    Inr (pos1\<lparr>area_list_attr := Some al,
                              area_interstice_list_attr := Some ail\<rparr>))))"

section \<open>Example objects\<close>

text \<open>
  A copper centre (type 29) in a copper-zirconium glass, with a small radius table; the
  coordination number that the collaborator \<open>cn\<close> reports is the argument.
\<close>

definition example_radii :: "string \<rightharpoonup> (string \<rightharpoonup> real)" where
  "example_radii =
     [''29'' \<mapsto> [''miracle_radius'' \<mapsto> 1.26, ''atomic_radius'' \<mapsto> 1.28],
      ''40'' \<mapsto> [''miracle_radius'' \<mapsto> 1.58, ''atomic_radius'' \<mapsto> 1.60]]"

definition example_externals :: "int \<Rightarrow> externals" where
  "example_externals c =
     \<lparr> ConvexHull = (\<lambda>pts. Inl QhullError),
       nn_coords = (\<lambda>s. map coords (neighbors s)),
       cn = (\<lambda>s. c),
       nn_type_dict = (\<lambda>s. [(29, 8), (40, 4)]),
       triangle_area = (\<lambda>a b c. 7 / 2),
       triangular_angle = (\<lambda>a b c. 1),
       PTE_dict = example_radii \<rparr>"

definition example_pos :: PackingOfSite where
  "example_pos = PackingOfSite_init (example_externals 12) (Site 1 (0, 0, 0) 29 []) None ''miracle_radius''"

text \<open>
  The spec's "accumulated solid angle subtended by a neighbour across all adjoining
  facets", written from the spec's words for comparison with what
  \<open>combine_neighbor_solid_angles\<close> computes: the sum, over all facets and their
  vertices, of the solid angles recorded at the vertices that are neighbour \<open>j\<close>.
\<close>

definition accumulated_solid_angle :: "qhull \<Rightarrow> real list list \<Rightarrow> nat \<Rightarrow> real" where
  "accumulated_solid_angle h sal j =
     (\<Sum>(facet, angles) \<leftarrow> zip (simplices h) sal.
        \<Sum>(idx, a) \<leftarrow> zip facet angles. if idx = j then a else 0)"

text \<open>
  A centre with five neighbours: four corners of a tetrahedron, which span the hull's
  four facets, and a fifth inside the hull, of a type (99) the radius table lacks.
\<close>

definition example_hull :: qhull where
  "example_hull = \<lparr> simplices = [[0, 1, 2], [0, 1, 3], [0, 2, 3], [1, 2, 3]], volume = 8 / 3, area = 8 * sqrt 3 \<rparr>"

definition example_site :: Site where
  "example_site = Site 1 (0, 0, 0) 29
     [Site 2 (1, 1, 1) 29 [], Site 3 (1, -1, -1) 40 [], Site 4 (-1, 1, -1) 40 [],
      Site 5 (-1, -1, 1) 29 [], Site 6 (1 / 10, 0, 0) 99 []]"

definition example_pos_hull :: PackingOfSite where
  "example_pos_hull =
     (PackingOfSite_init (example_externals 5) example_site None ''miracle_radius'')
       \<lparr> convex_hull_attr := Some example_hull,
         triangular_angle_lists_attr := Some [[1, 1, 1], [1, 1, 1], [1, 1, 1], [1, 1, 1]],
         solid_angle_lists_attr :=
           Some [[1 / 2, 1 / 2, 1 / 2], [1 / 2, 1 / 2, 1 / 2], [1 / 2, 1 / 2, 1 / 2],
                 [1 / 2, 1 / 2, 1 / 2]] \<rparr>"

text \<open>
  The area of a facet, as the loop of \<open>analyze_hull_facet_interstice\<close> obtains it from an
  array of coordinate rows: \<open>triangle_area\<close> at the coordinates of the facet's three
  corners.
\<close>

definition facet_area :: "externals \<Rightarrow> coord list \<Rightarrow> nat list \<Rightarrow> real" where
  "facet_area ext nnc facet =
     triangle_area ext (nnc ! (facet ! 0)) (nnc ! (facet ! 1)) (nnc ! (facet ! 2))"

text \<open>The same collaborators with a \<open>ConvexHull\<close> that answers with \<open>example_hull\<close>.\<close>

definition example_externals_hull :: externals where
  "example_externals_hull = (example_externals 5)\<lparr>ConvexHull := (\<lambda>pts. Inr example_hull)\<rparr>"

text \<open>
  A fresh \<open>PackingOfSite\<close> for the example site, and the object as
  \<open>calculate_hull_facet_angles\<close> leaves it.
\<close>

definition example_pos_fresh :: PackingOfSite where
  "example_pos_fresh = PackingOfSite_init example_externals_hull example_site None ''miracle_radius''"

definition example_pos_angles :: PackingOfSite where
  "example_pos_angles =
     example_pos_fresh
       \<lparr> convex_hull_attr := Some example_hull,
         triangular_angle_lists_attr := Some [[1, 1, 1], [1, 1, 1], [1, 1, 1], [1, 1, 1]] \<rparr>"

section \<open>VolumeAreaInterstice (short\_range\_order.py)\<close>

text \<open>
  The arguments of a call \<open>pd.DataFrame(data, index=..., columns=...)\<close>. The model of a
  \<open>transform\<close> ends with these; what follows in the source (\<open>remain_df_calc\<close>, saving
  through the context) belongs to collaborators outside the sources.
\<close>

record 'a frame =
  data :: "'a list list"
  index :: "int list"
  columns :: "string list"

text \<open>
  The attributes of a \<open>VolumeAreaInterstice\<close> that \<open>transform\<close> and \<open>get_feature_names\<close>
  read (\<open>va_radii\<close> and \<open>va_radius_type\<close> are the attributes \<open>radii\<close> and \<open>radius_type\<close>;
  \<open>dependency_name\<close> comes from the base class).
\<close>

record VolumeAreaInterstice =
  va_radii :: "(string \<rightharpoonup> (string \<rightharpoonup> real)) option"
  va_radius_type :: string
  calc_packing_efficiency :: bool
  calc_volume_area :: string
  dependency_name :: string

definition stats :: "string list" where
  "stats = [''sum'', ''mean'', ''std'', ''min'', ''max'']"

definition VolumeAreaInterstice_get_feature_names :: "VolumeAreaInterstice \<Rightarrow> string list" where
  "VolumeAreaInterstice_get_feature_names self =
     (let feature_names =
            (if calc_packing_efficiency self then
               [replace (va_radius_type self) ''_radius'' '''' @ ''_atomic_packing_efficiency ''
                  @ dependency_name self]
               @ [replace (va_radius_type self) ''_radius'' '''' @ ''_glass_packing_efficiency ''
                  @ dependency_name self]
             else []);
          feature_prefixs =
            (if calc_volume_area self = ''volume'' \<or> calc_volume_area self = ''all'' then
               [''fractional_volume_interstice_tetrahedra'',
                ''volume_interstice'',
                ''fractional_volume_interstice_tetrahedra_avg'',
                ''fractional_volume_interstice_center_v'']
             else [])
            @ (if calc_volume_area self = ''area'' \<or> calc_volume_area self = ''all'' then
               [''fractional_area_interstice_triangle'',
                ''area_interstice'',
                ''fractional_area_interstice_triangle_avg'',
                ''fractional_area_interstice_center_slice_a'']
             else [])
      in feature_names
         @ concat (map (\<lambda>feature_prefix.
                      map (\<lambda>stat. feature_prefix @ '' '' @ stat @ '' '' @ dependency_name self) stats)
                    feature_prefixs))"

text \<open>
  Stage 1 of \<open>transform\<close>: one \<open>Site\<close> per row \<open>(idx, coordinates, type)\<close> of \<open>lmp_df\<close>,
  stored under its index. The constructor of \<open>Site\<close> is outside the sources; the
  neighbour list of a fresh site is taken to be empty (stage 2 assigns it before any
  read).
\<close>

fun create_sites :: "(int \<rightharpoonup> Site) \<Rightarrow> (int \<times> coord \<times> int) list \<Rightarrow> (int \<rightharpoonup> Site)" where
  "create_sites site_dict [] = site_dict"
| "create_sites site_dict ((idx, c, t) # rest) =
     create_sites (site_dict(idx \<mapsto> Site idx c t [])) rest"

text \<open>
  \<open>[site_dict[int(x)] for x in site_neighbors if x > 0]\<close>: a slot that is not positive
  is unused; a positive identifier that is not a key raises \<open>KeyError\<close>.
\<close>

fun lookup_sites :: "(int \<rightharpoonup> Site) \<Rightarrow> int list \<Rightarrow> error + Site list" where
  "lookup_sites site_dict [] = Inr []"
| "lookup_sites site_dict (x # xs) =
     (if x > 0 then
        (case site_dict x of
           None \<Rightarrow> Inl KeyError
         | Some s \<Rightarrow>
             (case lookup_sites site_dict xs of
                Inl e \<Rightarrow> Inl e
              | Inr ss \<Rightarrow> Inr (s # ss)))
      else lookup_sites site_dict xs)"

text \<open>
  The branch of \<open>transform\<close> for an atom with at least four neighbours, up to the first
  statement that raises. With \<open>calc_volume_area\<close> equal to \<open>'volume'\<close> or \<open>'all'\<close> the
  statement \<open>pos_.calc_area_volume_list()\<close> raises \<open>AttributeError\<close>: \<open>PackingOfSite\<close>
  defines no such method. With \<open>'area'\<close> the read \<open>pos_.area_interstice_list\<close> raises
  \<open>AttributeError\<close>: the attribute that \<open>analyze_hull_facet_interstice\<close> sets has a
  trailing underscore, and nothing in this branch calls that method. Nothing in the
  branch catches an exception.
\<close>

definition atom_features ::
  "externals \<Rightarrow> VolumeAreaInterstice \<Rightarrow> PackingOfSite \<Rightarrow> error + real list" where
  "atom_features ext self pos_0 =
     (case (if calc_packing_efficiency self then
              (case atomic_packing_efficiency ext pos_0 of
                 Inl e \<Rightarrow> Inl e
               | Inr (ape, pos_1) \<Rightarrow>
                   (case glass_packing_efficiency ext pos_1 of
                      Inl e \<Rightarrow> Inl e
                    | Inr gpe \<Rightarrow> Inr [ape, gpe]))
            else Inr []) of
        Inl e \<Rightarrow> Inl e
      | Inr feature_list \<Rightarrow>
          (if calc_volume_area self = ''volume'' \<or> calc_volume_area self = ''all''
           then Inl AttributeError
           else if calc_volume_area self = ''area'' \<or> calc_volume_area self = ''all''
           then Inl AttributeError
           else Inr feature_list))"

text \<open>
  Stage 2 of \<open>transform\<close>, the loop over the rows \<open>(idx, neighbour-id slots)\<close> of \<open>X\<close>.
  The call of \<open>PackingOfSite\<close> passes the keywords \<open>radii\<close>, \<open>radius_type\<close>,
  \<open>calc_volume_area\<close> and \<open>calc_packing_efficiency\<close>, and comes before the test on the
  number of neighbours. An exception ends the loop and the whole \<open>transform\<close>.
\<close>

fun transform_rows ::
  "externals \<Rightarrow> VolumeAreaInterstice \<Rightarrow> (int \<rightharpoonup> Site) \<Rightarrow> real list list
     \<Rightarrow> (int \<times> int list) list \<Rightarrow> error + ((int \<rightharpoonup> Site) \<times> real list list)" where
  "transform_rows ext self site_dict feature_lists [] = Inr (site_dict, feature_lists)"
| "transform_rows ext self site_dict feature_lists ((idx, site_neighbors) # rest) =
     (case site_dict idx of
        None \<Rightarrow> Inl KeyError
      | Some s \<Rightarrow>
          (case lookup_sites site_dict site_neighbors of
             Inl e \<Rightarrow> Inl e
           | Inr nbrs \<Rightarrow>
               (let site1 = Site (site_id s) (coords s) (site_type s) nbrs;
                    site_dict1 = site_dict(idx \<mapsto> site1)
                in (case PackingOfSite_call ext site1
                           [''radii'', ''radius_type'', ''calc_volume_area'',
                            ''calc_packing_efficiency'']
                           (va_radii self) (va_radius_type self) of
                      Inl e \<Rightarrow> Inl e
                    | Inr pos_0 \<Rightarrow>
                        (if length (neighbors site1) < 4 then
                           transform_rows ext self site_dict1
                             (feature_lists
                                @ [replicate (length (VolumeAreaInterstice_get_feature_names self)) 0])
                             rest
                         else
                           (case atom_features ext self pos_0 of
                              Inl e \<Rightarrow> Inl e
                            | Inr feature_list \<Rightarrow>
                                transform_rows ext self site_dict1
                                  (feature_lists @ [feature_list]) rest))))))"

text \<open>
  \<open>transform\<close>: both stages, then the arguments of \<open>pd.DataFrame\<close>. The table \<open>X\<close> is the
  list of its rows, each the row's index and its neighbour-id slots in column order.
  \<open>check_featurizer_X\<close> and the progress reporter, outside the sources, are left out.
\<close>

definition VolumeAreaInterstice_transform ::
  "externals \<Rightarrow> VolumeAreaInterstice \<Rightarrow> (int \<times> coord \<times> int) list \<Rightarrow> (int \<times> int list) list
     \<Rightarrow> error + real frame" where
  "VolumeAreaInterstice_transform ext self lmp_df X =
     (case transform_rows ext self (create_sites Map.empty lmp_df) [] X of
        Inl e \<Rightarrow> Inl e
      | Inr (site_dict, feature_lists) \<Rightarrow>
          Inr \<lparr> data = feature_lists, index = map fst X,
                columns = VolumeAreaInterstice_get_feature_names self \<rparr>)"

text \<open>A configuration with the constructor's defaults, and a snapshot of six atoms.\<close>

definition example_featurizer :: VolumeAreaInterstice where
  "example_featurizer =
     \<lparr> va_radii = None, va_radius_type = ''miracle_radius'', calc_packing_efficiency = True,
       calc_volume_area = ''all'', dependency_name = ''voro'' \<rparr>"

definition example_lmp_df :: "(int \<times> coord \<times> int) list" where
  "example_lmp_df =
     [(1, (0, 0, 0), 29), (2, (1, 0, 0), 29), (3, (0, 1, 0), 40), (4, (-1, 0, 0), 40),
      (5, (0, -1, 0), 29), (6, (5, 5, 5), 40)]"

text \<open>
  Atom 1 of the snapshot with its four neighbours 2 to 5, which lie in the plane
  \<open>z = 0\<close>; and a \<open>PackingOfSite\<close> for it whose neighbour solid angles are present while
  its hull is not built yet.
\<close>

definition example_flat_site :: Site where
  "example_flat_site = Site 1 (0, 0, 0) 29
     [Site 2 (1, 0, 0) 29 [], Site 3 (0, 1, 0) 40 [], Site 4 (-1, 0, 0) 40 [],
      Site 5 (0, -1, 0) 29 []]"

definition example_flat_pos :: PackingOfSite where
  "example_flat_pos =
     (PackingOfSite_init (example_externals 4) example_flat_site None ''miracle_radius'')
       \<lparr> neighbors_solid_angle_attr := Some [1, 1, 1, 1] \<rparr>"

section \<open>CharacterMotif (short\_range\_order.py)\<close>

text \<open>\<open>sep.join(strings)\<close> and \<open>s.startswith(p)\<close>.\<close>

fun join :: "string \<Rightarrow> string list \<Rightarrow> string" where
  "join sep [] = []"
| "join sep [s] = s"
| "join sep (s # t # ss) = s @ sep @ join sep (t # ss)"

definition startswith :: "string \<Rightarrow> string \<Rightarrow> bool" where
  "startswith s p = (take (length p) s = p)"

text \<open>\<open>str\<close> of a \<open>np.float128\<close> whose value is a (small) integer: \<open>'12.0'\<close>.\<close>

definition str_float128 :: "int \<Rightarrow> string" where
  "str_float128 v = str_int v @ ''.0''"

text \<open>
  \<open>X[cols].values\<close>: for every row the values under the selected columns, a column
  being found by its (first) position in \<open>X.columns\<close>.
\<close>

fun position :: "'a \<Rightarrow> 'a list \<Rightarrow> nat" where
  "position x [] = 0"
| "position x (y # ys) = (if x = y then 0 else Suc (position x ys))"

definition select_columns :: "'a frame \<Rightarrow> string list \<Rightarrow> 'a list list" where
  "select_columns X cols = map (\<lambda>row. map (\<lambda>c. row ! position c (columns X)) cols) (data X)"

text \<open>
  Calls on the collaborators that \<open>CharacterMotif\<close> makes, recorded in the order they
  happen: the Voronoi Index engine (\<open>VoroIndex(...).fit_transform(X)\<close>, with its
  argument), the Fortran kernel \<open>voronoi_stats.character_motif\<close> (with the index values
  it is given) and, in \<open>fit\<close>, the dependency returned by \<open>check_dependency\<close>.
\<close>

datatype event =
    Call_VoroIndex "int frame"
  | Call_character_motif "int list list"
  | Call_dependency "int frame"

fun is_Call_VoroIndex :: "event \<Rightarrow> bool" where
  "is_Call_VoroIndex (Call_VoroIndex X) = True"
| "is_Call_VoroIndex e = False"

text \<open>
  The collaborators, outside the sources: \<open>VoroIndex.fit_transform\<close>, the kernel
  (arguments \<open>motif_one_hot\<close>, the index values, \<open>edge_min\<close>, \<open>target_voro_idx\<close>,
  \<open>frank_kasper\<close>, \<open>n_atoms\<close>; it returns the filled \<open>motif_one_hot\<close>, taken to hold
  integers so that \<open>|\<close> applies), and \<open>check_dependency\<close> of the base class, which
  returns \<open>None\<close> or a dependency whose \<open>fit_transform\<close> can be called.
\<close>

record motif_externals =
  VoroIndex_fit_transform :: "int frame \<Rightarrow> error + int frame"
  character_motif ::
    "int list list \<Rightarrow> int list list \<Rightarrow> int \<Rightarrow> int list list \<Rightarrow> nat \<Rightarrow> nat \<Rightarrow> int list list"
  check_dependency :: "string list \<Rightarrow> int frame \<Rightarrow> (int frame \<Rightarrow> error + int frame) option"

text \<open>
  The attributes of a \<open>CharacterMotif\<close>. \<open>__init__\<close> assigns \<open>target_voro_idx\<close> only
  when the argument is \<open>None\<close> (then to the two default targets); with any other
  argument the attribute does not exist (\<open>None\<close> here) and reading it raises
  \<open>AttributeError\<close>.
\<close>

record CharacterMotif =
  target_voro_idx :: "int list list option"
  frank_kasper :: nat
  edge_min :: int
  voro_depend_cols :: "string list"
  atoms_df :: "int frame"

definition CharacterMotif_init ::
  "int frame \<Rightarrow> int \<Rightarrow> int list list option \<Rightarrow> nat \<Rightarrow> CharacterMotif" where
  "CharacterMotif_init atoms_df_arg edge_min_arg target_voro_idx_arg frank_kasper_arg =
     \<lparr> target_voro_idx =
         (case target_voro_idx_arg of
            None \<Rightarrow> Some [[0, 0, 12, 0, 0], [0, 0, 12, 4, 0]]
          | Some t \<Rightarrow> None),
       frank_kasper = frank_kasper_arg,
       edge_min = edge_min_arg,
       voro_depend_cols = [''n_neighbors_voro'', ''neighbor_edge_5_voro''],
       atoms_df = atoms_df_arg \<rparr>"

definition CharacterMotif_get_feature_names :: "CharacterMotif \<Rightarrow> error + string list" where
  "CharacterMotif_get_feature_names self =
     (case target_voro_idx self of
        None \<Rightarrow> Inl AttributeError
      | Some targets \<Rightarrow>
          Inr ([''is <0,0,12,0,0> voro'', ''is <0,0,12,4,0> voro'']
               @ map (\<lambda>v. join ''_'' (map str_float128 v) @ '' voro'') (drop 2 targets)
               @ [''is polytetrahedral voro'', ''is <0,0,12,0/4,0> voro'']))"

text \<open>
  \<open>fit\<close>: returns the log of calls and the object (whose \<open>voro_depend_cols\<close> and
  \<open>atoms_df\<close> it may change).
\<close>

definition CharacterMotif_fit ::
  "motif_externals \<Rightarrow> CharacterMotif \<Rightarrow> int frame \<Rightarrow> event list \<times> (error + CharacterMotif)" where
  "CharacterMotif_fit ext self X =
     (case check_dependency ext (voro_depend_cols self) X of
        Some dependency \<Rightarrow>
          ([Call_dependency (atoms_df self)],
           (case dependency (atoms_df self) of
              Inl e \<Rightarrow> Inl e
            | Inr df \<Rightarrow> Inr (self\<lparr>atoms_df := df\<rparr>)))
      | None \<Rightarrow>
          (let self1 = self\<lparr>voro_depend_cols := [''Voronoi idx5 voro'']\<rparr> in
           (case check_dependency ext (voro_depend_cols self1) X of
              None \<Rightarrow> ([], Inr self1)
            | Some dependency \<Rightarrow>
                ([Call_dependency (atoms_df self1)],
                 (case dependency (atoms_df self1) of
                    Inl e \<Rightarrow> Inl e
                  | Inr df \<Rightarrow> Inr (self1\<lparr>atoms_df := df\<rparr>))))))"

text \<open>
  The second half of \<open>transform\<close>, from the table that holds the index columns: the
  kernel call, the column \<open>is_120_124 = motif_one_hot_array[:, 0] | motif_one_hot_array[:, 1]\<close>
  appended on the right, and the arguments of \<open>pd.DataFrame\<close>. Column 1 of an array with
  fewer than two columns is an \<open>IndexError\<close>; pandas raises \<open>ValueError\<close> when the
  array's width differs from the number of column names.
\<close>

definition classify_motifs ::
  "motif_externals \<Rightarrow> CharacterMotif \<Rightarrow> nat \<Rightarrow> int frame \<Rightarrow> event list \<times> (error + int frame)" where
  "classify_motifs ext self n_atoms X =
     (let voro_index_cols = filter (\<lambda>col. startswith col ''Voronoi idx'') (columns X) in
      (case target_voro_idx self of
         None \<Rightarrow> ([], Inl AttributeError)
       | Some targets \<Rightarrow>
           (let width = length targets + frank_kasper self;
                motif_one_hot =
                  character_motif ext (replicate n_atoms (replicate width 0))
                    (select_columns X voro_index_cols) (edge_min self) targets
                    (frank_kasper self) n_atoms;
                log = [Call_character_motif (select_columns X voro_index_cols)]
            in if width < 2 then (log, Inl IndexError)
               else
                 (let motif_one_hot_array =
                        map (\<lambda>row. row @ [or (row ! 0) (row ! 1)]) motif_one_hot
                  in (case CharacterMotif_get_feature_names self of
                        Inl e \<Rightarrow> (log, Inl e)
                      | Inr names \<Rightarrow>
                          (if width + 1 \<noteq> length names then (log, Inl ValueError)
                           else (log, Inr \<lparr> data = motif_one_hot_array, index = index X,
                                              columns = names \<rparr>)))))))"

text \<open>
  \<open>transform\<close>: the Voronoi Index engine is called only when the column
  \<open>"Voronoi idx5 voro"\<close> is missing, and then before the kernel.
\<close>

definition CharacterMotif_transform ::
  "motif_externals \<Rightarrow> CharacterMotif \<Rightarrow> int frame \<Rightarrow> event list \<times> (error + int frame)" where
  "CharacterMotif_transform ext self X =
     (let n_atoms = length (data X) in
      if ''Voronoi idx5 voro'' \<notin> set (columns X) then
        (case VoroIndex_fit_transform ext X of
           Inl e \<Rightarrow> ([Call_VoroIndex X], Inl e)
         | Inr X1 \<Rightarrow>
             (let (log, result) = classify_motifs ext self n_atoms X1
              in (Call_VoroIndex X # log, result)))
      else classify_motifs ext self n_atoms X)"

text \<open>
  Modelled from the spec: the Fortran kernel \<open>voronoi_stats.character_motif\<close>, which is
  not among the sources. The spec says that the motif classification compares an atom's
  full index vector against each canonical target, and that an exact match yields the
  indicator 1. About the \<open>frank_kasper\<close> extra columns that the array reserves the spec
  says nothing; their content is the parameter \<open>fk\<close>.
\<close>

definition character_motif_spec ::
  "(int list \<Rightarrow> int) \<Rightarrow> int list list \<Rightarrow> int list list \<Rightarrow> int \<Rightarrow> int list list \<Rightarrow> nat \<Rightarrow> nat
     \<Rightarrow> int list list" where
  "character_motif_spec fk motif_one_hot voronoi_index_list edge_min_arg targets frank_kasper_arg n_atoms =
     map (\<lambda>v. map (\<lambda>t. if v = t then 1 else 0) targets @ replicate frank_kasper_arg (fk v))
       voronoi_index_list"

section \<open>BOOP (short\_range\_order.py)\<close>

definition bq_tags :: "string list" where
  "bq_tags = [''4'', ''6'', ''8'', ''10'']"

definition BOOP_get_feature_names :: "string \<Rightarrow> string list" where
  "BOOP_get_feature_names dependency_name_arg =
     map (\<lambda>num. ''q_'' @ num @ '' '' @ dependency_name_arg) bq_tags
     @ map (\<lambda>num. ''w_'' @ num @ '' '' @ dependency_name_arg) bq_tags
     @ map (\<lambda>num. ''Coarse-grained q_'' @ num @ '' '' @ dependency_name_arg) bq_tags
     @ map (\<lambda>num. ''Coarse-grained w_'' @ num @ '' '' @ dependency_name_arg) bq_tags"

text \<open>
  \<open>np.append(a, b, axis=1)\<close> on two-dimensional arrays (lists of rows): the rows are
  joined pairwise; arrays with different numbers of rows raise \<open>ValueError\<close>.
\<close>

definition append_axis1 :: "'a list list \<Rightarrow> 'a list list \<Rightarrow> error + 'a list list" where
  "append_axis1 a b =
     (if length a = length b then Inr (map (\<lambda>(r, s). r @ s) (zip a b)) else Inl ValueError)"

text \<open>
  \<open>transform\<close>. The Fortran kernel \<open>boop.calculate_boop\<close> is outside the sources; it
  returns the four arrays \<open>Ql\<close>, \<open>Wlbar\<close>, \<open>coarse_Ql\<close>, \<open>coarse_Wlbar\<close> for the table.
  pandas raises \<open>ValueError\<close> when a row's width differs from the number of names.
\<close>

definition BOOP_transform ::
  "(int frame \<Rightarrow> real list list \<times> real list list \<times> real list list \<times> real list list)
     \<Rightarrow> string \<Rightarrow> int frame \<Rightarrow> error + real frame" where
  "BOOP_transform calculate_boop dependency_name_arg X =
     (case calculate_boop X of
        (Ql, Wlbar, coarse_Ql, coarse_Wlbar) \<Rightarrow>
          (case append_axis1 Ql Wlbar of
             Inl e \<Rightarrow> Inl e
           | Inr concat_array1 \<Rightarrow>
               (case append_axis1 concat_array1 coarse_Ql of
                  Inl e \<Rightarrow> Inl e
                | Inr concat_array2 \<Rightarrow>
                    (case append_axis1 concat_array2 coarse_Wlbar of
                       Inl e \<Rightarrow> Inl e
                     | Inr concat_array \<Rightarrow>
                         (if list_all (\<lambda>row. length row = length (BOOP_get_feature_names dependency_name_arg))
                               concat_array
                          then Inr \<lparr> data = concat_array, index = index X,
                                     columns = BOOP_get_feature_names dependency_name_arg \<rparr>
                          else Inl ValueError)))))"

text \<open>
  A table of two atoms that already holds the Voronoi index columns, and a stand-in for
  the BOOP kernel whose sixteen values per atom are all different.
\<close>

definition example_table :: "int frame" where
  "example_table =
     \<lparr> data = [[12, 12, 0, 0, 12, 0, 0], [14, 12, 0, 0, 12, 2, 0]],
       index = [1, 2],
       columns = [''n_neighbors_voro'', ''neighbor_edge_5_voro'', ''Voronoi idx3 voro'',
                  ''Voronoi idx4 voro'', ''Voronoi idx5 voro'', ''Voronoi idx6 voro'',
                  ''Voronoi idx7 voro''] \<rparr>"

definition example_calculate_boop ::
  "int frame \<Rightarrow> real list list \<times> real list list \<times> real list list \<times> real list list" where
  "example_calculate_boop X =
     ([[1, 2, 3, 4], [21, 22, 23, 24]],
      [[5, 6, 7, 8], [25, 26, 27, 28]],
      [[9, 10, 11, 12], [29, 30, 31, 32]],
      [[13, 14, 15, 16], [33, 34, 35, 36]])"

text \<open>
  A table without the index columns; collaborators for \<open>CharacterMotif\<close>: an Index
  engine that answers with \<open>example_table\<close>, the kernel as the spec describes it, with
  the reserved column filled as the spec describes its "polytetrahedral" indicator, and
  a \<open>check_dependency\<close> that returns \<open>None\<close> when the table has all the columns asked
  for.
\<close>

definition example_raw_table :: "int frame" where
  "example_raw_table =
     \<lparr> data = [[12, 5], [14, 5]], index = [1, 2],
       columns = [''n_neighbors_voro'', ''neighbor_edge_5_voro''] \<rparr>"

definition example_motif_externals :: motif_externals where
  "example_motif_externals =
     \<lparr> VoroIndex_fit_transform = (\<lambda>X. Inr example_table),
       character_motif =
         character_motif_spec
           (\<lambda>v. if v = [0, 0, 12, 0, 0] \<or> v = [0, 0, 12, 4, 0] then 1 else 0),
       check_dependency =
         (\<lambda>cols X. if set cols \<subseteq> set (columns X) then None else Some (\<lambda>df. Inr df)) \<rparr>"

section \<open>Properties of \<open>check_within\<close>\<close>

text \<open>
  C10. With criterion type "range" and a two-element criterion \<open>[lo, hi]\<close>,
  \<open>check_within\<close> returns true exactly when \<open>lo < x\<close> and \<open>x < hi\<close>, both strict: a
  value equal to either endpoint is not within the range. A \<open>None\<close> endpoint is replaced
  by \<open>-sys.float_info.max\<close> (lower) or \<open>sys.float_info.max\<close> (upper).
\<close>

theorem check_within_range_strict:
  "check_within x [Some lo, Some hi] ''range'' = Inr (lo < x \<and> x < hi)
   \<and> check_within lo [Some lo, Some hi] ''range'' = Inr False
   \<and> check_within hi [Some lo, Some hi] ''range'' = Inr False
   \<and> check_within x [None, Some hi] ''range'' = Inr (- float_max < x \<and> x < hi)
   \<and> check_within x [Some lo, None] ''range'' = Inr (lo < x \<and> x < float_max)
   \<and> check_within x [None, None] ''range'' = Inr (- float_max < x \<and> x < float_max)"
  by (simp add: check_within_def)

section \<open>Glass packing efficiency\<close>

lemma weighted_radius_loop_ok:
  "\<forall>(t, n) \<in> set items. radius_of pos t = Inr (rad t) \<Longrightarrow>
   weighted_radius_loop pos r items = Inr (r + (\<Sum>(t, n) \<leftarrow> items. rad t * of_int n))"
  by (induction items arbitrary: r) (auto simp: algebra_simps)

lemma sum_list_divide:
  "(\<Sum>(t, n) \<leftarrow> xs. f t n) / (c::real) = (\<Sum>(t, n) \<leftarrow> xs. f t n / c)"
  by (induction xs) (auto simp: add_divide_distrib)

lemma ideal_ratio_in_range:
  "3 \<le> c \<Longrightarrow> c \<le> 24 \<Longrightarrow> ideal_ratio c \<noteq> None"
proof -
  assume a: "3 \<le> c" "c \<le> 24"
  then have "c = 3 \<or> c = 4 \<or> c = 5 \<or> c = 6 \<or> c = 7 \<or> c = 8 \<or> c = 9 \<or> c = 10
      \<or> c = 11 \<or> c = 12 \<or> c = 13 \<or> c = 14 \<or> c = 15 \<or> c = 16 \<or> c = 17 \<or> c = 18
      \<or> c = 19 \<or> c = 20 \<or> c = 21 \<or> c = 22 \<or> c = 23 \<or> c = 24"
    by arith
  then show ?thesis
    unfolding ideal_ratio_def map_of_eq_None_iff by auto
qed

lemma ideal_ratio_out_of_range:
  "c < 3 \<or> 24 < c \<Longrightarrow> ideal_ratio c = None"
  unfolding ideal_ratio_def by auto

lemma gpe_fails_outside:
  "cn ext (site pos) < 3 \<or> 24 < cn ext (site pos) \<Longrightarrow> \<exists>e. glass_packing_efficiency ext pos = Inl e"
  by (auto simp: glass_packing_efficiency_def Let_def ideal_ratio_out_of_range split: sum.splits)

lemma str_29: "str_int 29 = ''29''" "str_int 40 = ''40''"
  by (simp_all add: str_int_def str_nat.simps digit_char_def)

text \<open>
  C3. When the coordination number lies in \<open>[3, 24]\<close>, every neighbour type and the
  centre's type have a radius entry, and the count-weighted neighbour radius (the
  divisor of the formula) is not zero, \<open>glass_packing_efficiency\<close> returns
  \<open>r_center / (\<Sum> r_type * count_of_type / cn) - ideal_ratio[cn]\<close>. When the coordination
  number lies outside \<open>[3, 24]\<close> it raises, whatever the radii are.
\<close>

theorem glass_packing_efficiency_formula:
  "(3 \<le> cn ext (site pos) \<and> cn ext (site pos) \<le> 24
      \<and> (\<forall>(t, n) \<in> set (nn_type_dict ext (site pos)). radius_of pos t = Inr (rad t))
      \<and> radius_of pos (site_type (site pos)) = Inr rc
      \<and> (\<Sum>(t, n) \<leftarrow> nn_type_dict ext (site pos).
             rad t * of_int n / of_int (cn ext (site pos))) \<noteq> 0
    \<longrightarrow> ideal_ratio (cn ext (site pos)) \<noteq> None
          \<and> glass_packing_efficiency ext pos =
              Inr (rc / (\<Sum>(t, n) \<leftarrow> nn_type_dict ext (site pos).
                           rad t * of_int n / of_int (cn ext (site pos)))
                   - the (ideal_ratio (cn ext (site pos)))))
   \<and> (cn ext (site pos) < 3 \<or> 24 < cn ext (site pos)
        \<longrightarrow> (\<exists>e. glass_packing_efficiency ext pos = Inl e))"
proof (rule conjI; rule impI)
  assume a: "3 \<le> cn ext (site pos) \<and> cn ext (site pos) \<le> 24
      \<and> (\<forall>(t, n) \<in> set (nn_type_dict ext (site pos)). radius_of pos t = Inr (rad t))
      \<and> radius_of pos (site_type (site pos)) = Inr rc
      \<and> (\<Sum>(t, n) \<leftarrow> nn_type_dict ext (site pos).
             rad t * of_int n / of_int (cn ext (site pos))) \<noteq> 0"
  let ?items = "nn_type_dict ext (site pos)"
  let ?c = "cn ext (site pos)"
  from a have c0: "?c \<noteq> 0" by auto
  from a obtain ideal where ideal: "ideal_ratio ?c = Some ideal"
    using ideal_ratio_in_range [of ?c] by auto
  from a have loop: "weighted_radius_loop pos 0 ?items = Inr (\<Sum>(t, n) \<leftarrow> ?items. rad t * of_int n)"
    using weighted_radius_loop_ok [of ?items pos rad 0] by simp
  have div: "(\<Sum>(t, n) \<leftarrow> ?items. rad t * of_int n) / of_int ?c
             = (\<Sum>(t, n) \<leftarrow> ?items. rad t * of_int n / of_int ?c)"
    by (rule sum_list_divide)
  from a have nz: "(\<Sum>(t, n) \<leftarrow> ?items. rad t * of_int n) / of_int ?c \<noteq> 0"
    using div by simp
  from a have rc: "radius_of pos (site_type (site pos)) = Inr rc" by simp
  have "glass_packing_efficiency ext pos =
          Inr (rc / ((\<Sum>(t, n) \<leftarrow> ?items. rad t * of_int n) / of_int ?c) - ideal)"
    unfolding glass_packing_efficiency_def using c0 ideal loop nz rc
    by (simp add: Let_def)
  with ideal div show "ideal_ratio ?c \<noteq> None
          \<and> glass_packing_efficiency ext pos =
              Inr (rc / (\<Sum>(t, n) \<leftarrow> ?items. rad t * of_int n / of_int ?c)
                   - the (ideal_ratio ?c))"
    by simp
next
  assume "cn ext (site pos) < 3 \<or> 24 < cn ext (site pos)"
  then show "\<exists>e. glass_packing_efficiency ext pos = Inl e"
    by (rule gpe_fails_outside)
qed

lemma example_radius_of:
  "radius_of example_pos 29 = Inr 1.26" "radius_of example_pos 40 = Inr 1.58"
  by (simp_all add: radius_of_def example_pos_def PackingOfSite_init_def example_externals_def
        example_radii_def str_29)

theorem glass_packing_efficiency_formula_witness:
  "glass_packing_efficiency (example_externals 12) example_pos
     = Inr (1.26 / (1.26 * 8 / 12 + 1.58 * 4 / 12) - 0.902113)
   \<and> (\<exists>e. glass_packing_efficiency (example_externals 25) example_pos = Inl e)"
proof
  have s: "site example_pos = Site 1 (0, 0, 0) 29 []"
    by (simp add: example_pos_def PackingOfSite_init_def)
  have i: "ideal_ratio 12 = Some 0.902113"
    by (simp add: ideal_ratio_def)
  show "glass_packing_efficiency (example_externals 12) example_pos
     = Inr (1.26 / (1.26 * 8 / 12 + 1.58 * 4 / 12) - 0.902113)"
    using glass_packing_efficiency_formula
      [of "example_externals 12" example_pos "\<lambda>t. if t = 29 then 1.26 else 1.58" "1.26"]
    by (simp add: s i example_radius_of example_externals_def)
  show "\<exists>e. glass_packing_efficiency (example_externals 25) example_pos = Inl e"
    using glass_packing_efficiency_formula
      [of "example_externals 25" example_pos "\<lambda>t. if t = 29 then 1.26 else 1.58" "1.26"]
    by (simp add: example_externals_def)
qed

section \<open>Cluster packed volume and atomic packing efficiency\<close>

lemma add_solid_angles_sum:
  "add_solid_angles acc ps = Inr acc' \<Longrightarrow>
   length acc' = length acc \<and>
   (\<forall>j < length acc. acc' ! j = acc ! j + (\<Sum>(idx, a) \<leftarrow> ps. if idx = j then a else 0))"
proof (induction ps arbitrary: acc)
  case Nil
  then show ?case by simp
next
  case (Cons p ps)
  obtain idx a where p: "p = (idx, a)" by (cases p)
  from Cons.prems p have inb: "idx < length acc"
    by (auto split: if_splits)
  with Cons.prems p have "add_solid_angles (acc[idx := acc ! idx + a]) ps = Inr acc'"
    by simp
  from Cons.IH [OF this] show ?case
    using p inb by (auto simp: nth_list_update)
qed

lemma combine_loop_sum:
  "combine_loop acc fs = Inr acc' \<Longrightarrow>
   length acc' = length acc \<and>
   (\<forall>j < length acc. acc' ! j = acc ! j +
      (\<Sum>(facet, angles) \<leftarrow> fs. \<Sum>(idx, a) \<leftarrow> zip facet angles. if idx = j then a else 0))"
proof (induction fs arbitrary: acc)
  case Nil
  then show ?case by simp
next
  case (Cons f fs)
  obtain facet angles where f: "f = (facet, angles)" by (cases f)
  from Cons.prems f obtain acc1 where
    a1: "add_solid_angles acc (zip facet angles) = Inr acc1" and
    a2: "combine_loop acc1 fs = Inr acc'"
    by (auto split: sum.splits)
  from add_solid_angles_sum [OF a1] Cons.IH [OF a2] show ?case
    using f by (auto simp: algebra_simps)
qed

lemma packed_volume_loop_sum:
  "\<forall>(nb, sa) \<in> set ps. sa \<noteq> 0 \<longrightarrow> radius_of pos (site_type nb) = Inr (rad (site_type nb)) \<Longrightarrow>
   packed_volume_loop pos pv ps =
     Inr (pv + (\<Sum>(nb, sa) \<leftarrow> ps. if sa = 0 then 0 else sa / 3 * rad (site_type nb) ^ 3))"
  by (induction ps arbitrary: pv) (auto simp: algebra_simps)

lemma combine_result:
  assumes "neighbors_solid_angle_attr pos0 = None"
    and "convex_hull_attr pos0 = Some h"
    and "solid_angle_lists_attr pos0 = Some sal"
    and "combine_neighbor_solid_angles ext pos0 = Inr (nsa, pos)"
  shows "pos = pos0\<lparr>neighbors_solid_angle_attr := Some nsa\<rparr>"
    and "nsa = map (accumulated_solid_angle h sal) [0..<length (neighbors (site pos0))]"
proof -
  let ?n = "length (neighbors (site pos0))"
  from assms have loop: "combine_loop (replicate ?n 0) (zip (simplices h) sal) = Inr nsa"
    and p: "pos = pos0\<lparr>neighbors_solid_angle_attr := Some nsa\<rparr>"
    by (auto simp: combine_neighbor_solid_angles_def convex_hull_def split: sum.splits)
  show "pos = pos0\<lparr>neighbors_solid_angle_attr := Some nsa\<rparr>" by (rule p)
  from combine_loop_sum [OF loop]
  have len: "length nsa = ?n"
    and nth: "\<forall>j < ?n. nsa ! j = accumulated_solid_angle h sal j"
    by (auto simp: accumulated_solid_angle_def)
  show "nsa = map (accumulated_solid_angle h sal) [0..<?n]"
    by (rule nth_equalityI) (use len nth in auto)
qed

text \<open>
  C4. For an atom with a hull of non-zero volume, after \<open>combine_neighbor_solid_angles\<close>
  has run: the accumulator of each neighbour is its accumulated solid angle over all
  facets; \<open>cluster_packed_volume\<close> is \<open>4/3 * pi * r_center^3\<close> plus, for each neighbour
  with a non-zero accumulated solid angle, that angle divided by 3 times the neighbour's
  radius cubed (the others contribute nothing, and their radius is not even looked up);
  \<open>atomic_packing_efficiency\<close> is this volume divided by the hull's volume.
\<close>

theorem cluster_packed_volume_formula:
  assumes "neighbors_solid_angle_attr pos0 = None"
    and "convex_hull_attr pos0 = Some h"
    and "volume h \<noteq> 0"
    and "solid_angle_lists_attr pos0 = Some sal"
    and "combine_neighbor_solid_angles ext pos0 = Inr (nsa, pos)"
    and "radius_of pos (site_type (site pos)) = Inr rc"
    and "\<forall>(nb, sa) \<in> set (zip (neighbors (site pos)) nsa).
           sa \<noteq> 0 \<longrightarrow> radius_of pos (site_type nb) = Inr (rad (site_type nb))"
  shows "nsa = map (accumulated_solid_angle h sal) [0..<length (neighbors (site pos))]
     \<and> cluster_packed_volume pos =
         Inr (4 / 3 * pi * rc ^ 3 +
              (\<Sum>(nb, sa) \<leftarrow> zip (neighbors (site pos)) nsa.
                 if sa = 0 then 0 else sa / 3 * rad (site_type nb) ^ 3))
     \<and> atomic_packing_efficiency ext pos =
         Inr ((4 / 3 * pi * rc ^ 3 +
               (\<Sum>(nb, sa) \<leftarrow> zip (neighbors (site pos)) nsa.
                  if sa = 0 then 0 else sa / 3 * rad (site_type nb) ^ 3)) / volume h, pos)"
proof -
  note cr = combine_result [OF assms(1) assms(2) assms(4) assms(5)]
  from cr(1) have attr: "neighbors_solid_angle_attr pos = Some nsa"
    and same: "site pos = site pos0" and hull: "convex_hull_attr pos = Some h"
    using assms(2) by simp_all
  have cpv: "cluster_packed_volume pos =
         Inr (4 / 3 * pi * rc ^ 3 +
              (\<Sum>(nb, sa) \<leftarrow> zip (neighbors (site pos)) nsa.
                 if sa = 0 then 0 else sa / 3 * rad (site_type nb) ^ 3))"
    unfolding cluster_packed_volume_def
    using assms(6) attr packed_volume_loop_sum [OF assms(7)] by simp
  have ch: "convex_hull ext pos = Inr (h, pos)"
    using hull by (simp add: convex_hull_def)
  have ape: "atomic_packing_efficiency ext pos =
         Inr ((4 / 3 * pi * rc ^ 3 +
               (\<Sum>(nb, sa) \<leftarrow> zip (neighbors (site pos)) nsa.
                  if sa = 0 then 0 else sa / 3 * rad (site_type nb) ^ 3)) / volume h, pos)"
    unfolding atomic_packing_efficiency_def using cpv ch assms(3) by simp
  from cr(2) same cpv ape show ?thesis by simp
qed

lemma example_combine:
  "combine_neighbor_solid_angles (example_externals 5) example_pos_hull =
     Inr ([3 / 2, 3 / 2, 3 / 2, 3 / 2, 0],
          example_pos_hull\<lparr>neighbors_solid_angle_attr := Some [3 / 2, 3 / 2, 3 / 2, 3 / 2, 0]\<rparr>)"
  by (simp add: combine_neighbor_solid_angles_def convex_hull_def example_pos_hull_def
        PackingOfSite_init_def example_hull_def example_site_def)

theorem cluster_packed_volume_formula_witness:
  "cluster_packed_volume
      (example_pos_hull\<lparr>neighbors_solid_angle_attr := Some [3 / 2, 3 / 2, 3 / 2, 3 / 2, 0]\<rparr>)
     = Inr (4 / 3 * pi * 1.26 ^ 3 + (1 / 2 * 1.26 ^ 3 + 1 / 2 * 1.58 ^ 3 + 1 / 2 * 1.58 ^ 3 + 1 / 2 * 1.26 ^ 3))
   \<and> atomic_packing_efficiency (example_externals 5)
      (example_pos_hull\<lparr>neighbors_solid_angle_attr := Some [3 / 2, 3 / 2, 3 / 2, 3 / 2, 0]\<rparr>)
     = Inr ((4 / 3 * pi * 1.26 ^ 3 + (1 / 2 * 1.26 ^ 3 + 1 / 2 * 1.58 ^ 3 + 1 / 2 * 1.58 ^ 3 + 1 / 2 * 1.26 ^ 3)) / (8 / 3),
          example_pos_hull\<lparr>neighbors_solid_angle_attr := Some [3 / 2, 3 / 2, 3 / 2, 3 / 2, 0]\<rparr>)"
proof -
  let ?pos = "example_pos_hull\<lparr>neighbors_solid_angle_attr := Some [3 / 2, 3 / 2, 3 / 2, 3 / 2, 0]\<rparr>"
  have h1: "neighbors_solid_angle_attr example_pos_hull = None"
    and h2: "convex_hull_attr example_pos_hull = Some example_hull"
    and h4: "solid_angle_lists_attr example_pos_hull =
           Some [[1 / 2, 1 / 2, 1 / 2], [1 / 2, 1 / 2, 1 / 2], [1 / 2, 1 / 2, 1 / 2],
                 [1 / 2, 1 / 2, 1 / 2]]"
    and st: "site ?pos = example_site"
    by (simp_all add: example_pos_hull_def PackingOfSite_init_def)
  have h3: "volume example_hull \<noteq> 0" by (simp add: example_hull_def)
  have r29: "radius_of ?pos 29 = Inr 1.26" and r40: "radius_of ?pos 40 = Inr 1.58"
    by (simp_all add: radius_of_def example_pos_hull_def PackingOfSite_init_def
          example_externals_def example_radii_def str_29)
  have h6: "radius_of ?pos (site_type (site ?pos)) = Inr 1.26"
    using r29 by (simp add: st example_site_def)
  have h7: "\<forall>(nb, sa) \<in> set (zip (neighbors (site ?pos)) [3 / 2, 3 / 2, 3 / 2, 3 / 2, 0]).
           sa \<noteq> 0 \<longrightarrow> radius_of ?pos (site_type nb)
              = Inr ((\<lambda>t. if t = 29 then 1.26 else 1.58) (site_type nb))"
    using r29 r40 by (simp add: st example_site_def)
  from cluster_packed_volume_formula [OF h1 h2 h3 h4 example_combine h6 h7]
  show ?thesis
    by (simp add: st example_site_def example_hull_def)
qed

section \<open>Facet interstices\<close>

lemma packed_area_loop_sum:
  "\<forall>(i, a) \<in> set ps. i < length (neighbors (site pos))
       \<and> radius_of pos (site_type (neighbors (site pos) ! i)) = Inr (rad i) \<Longrightarrow>
   packed_area_loop pos pa ps = Inr (pa + (\<Sum>(i, a) \<leftarrow> ps. a / 2 * rad i ^ 2))"
  by (induction ps arbitrary: pa) (auto simp: algebra_simps)

lemma facet_corners:
  assumes "length facet = 3" and "\<forall>i \<in> set facet. i < length nnc"
  shows "select_coords (Rows nnc) facet
           = Inr [nnc ! (facet ! 0), nnc ! (facet ! 1), nnc ! (facet ! 2)]"
proof -
  from assms(1) obtain a b c where f: "facet = [a, b, c]"
    by (auto simp: numeral_3_eq_3 length_Suc_conv)
  with assms(2) show ?thesis
    by simp
qed

text \<open>
  The loop body on an array of coordinate rows: the packed area of a facet is the sum
  over its three vertices of (triangular angle / 2) times the squared radius, and the
  value appended is \<open>1 - packed_area / area\<close>.
\<close>

lemma facet_loop_rows:
  assumes "\<forall>(facet, angs) \<in> set fs.
             length facet = 3
           \<and> (\<forall>i \<in> set facet. i < length nnc \<and> i < length (neighbors (site pos))
                  \<and> radius_of pos (site_type (neighbors (site pos) ! i)) = Inr (rad i))
           \<and> facet_area ext nnc facet \<noteq> 0"
  shows "facet_loop ext pos (Rows nnc) al ail fs =
           Inr (al @ map (\<lambda>(facet, angs). facet_area ext nnc facet) fs,
                ail @ map (\<lambda>(facet, angs).
                     1 - (\<Sum>(i, a) \<leftarrow> zip facet angs. a / 2 * rad i ^ 2) / facet_area ext nnc facet) fs)"
  using assms
proof (induction fs arbitrary: al ail)
  case Nil
  then show ?case by simp
next
  case (Cons f fs)
  obtain facet angs where f: "f = (facet, angs)" by (cases f)
  from Cons.prems f have len: "length facet = 3"
    and inb: "\<forall>i \<in> set facet. i < length nnc"
    and rad: "\<forall>i \<in> set facet. i < length (neighbors (site pos))
                  \<and> radius_of pos (site_type (neighbors (site pos) ! i)) = Inr (rad i)"
    and nz: "facet_area ext nnc facet \<noteq> 0"
    and rest: "\<forall>(facet, angs) \<in> set fs.
             length facet = 3
           \<and> (\<forall>i \<in> set facet. i < length nnc \<and> i < length (neighbors (site pos))
                  \<and> radius_of pos (site_type (neighbors (site pos) ! i)) = Inr (rad i))
           \<and> facet_area ext nnc facet \<noteq> 0"
    by auto
  have sel: "select_coords (Rows nnc) facet
               = Inr [nnc ! (facet ! 0), nnc ! (facet ! 1), nnc ! (facet ! 2)]"
    by (rule facet_corners [OF len inb])
  have "\<forall>(i, a) \<in> set (zip facet angs). i < length (neighbors (site pos))
       \<and> radius_of pos (site_type (neighbors (site pos) ! i)) = Inr (rad i)"
    using rad by (auto dest: set_zip_leftD)
  from packed_area_loop_sum [OF this, of 0]
  have pa: "packed_area_loop pos 0 (zip facet angs) = Inr (\<Sum>(i, a) \<leftarrow> zip facet angs. a / 2 * rad i ^ 2)"
    by simp
  have ar: "call_triangle_area ext [nnc ! (facet ! 0), nnc ! (facet ! 1), nnc ! (facet ! 2)]
              = Inr (facet_area ext nnc facet)"
    by (simp add: call_triangle_area_def facet_area_def)
  show ?case
    using f sel pa ar nz Cons.IH [OF rest] by simp
qed

text \<open>The loop on the zero-dimensional array stops at its first facet.\<close>

lemma facet_loop_object:
  "fs \<noteq> [] \<Longrightarrow> facet_loop ext pos Object_0d al ail fs = Inl IndexError"
  by (cases fs) auto

lemma analyze_hull_facet_interstice_raises:
  assumes "convex_hull_attr pos = Some h"
    and "triangular_angle_lists_attr pos = Some tals"
    and "zip (simplices h) tals \<noteq> []"
  shows "analyze_hull_facet_interstice ext pos = Inl IndexError"
  using assms
  by (simp add: analyze_hull_facet_interstice_def convex_hull_def facet_loop_object)

lemma example_facet_angles:
  "calculate_hull_facet_angles example_externals_hull example_pos_fresh
     = Inr ([[1, 1, 1], [1, 1, 1], [1, 1, 1], [1, 1, 1]], example_pos_angles)"
  by (simp add: calculate_hull_facet_angles_def convex_hull_def example_pos_fresh_def
        example_pos_angles_def PackingOfSite_init_def example_externals_hull_def
        example_externals_def example_hull_def example_site_def leaf_indices_list_def item_def)

lemma example_facet_rows:
  "facet_loop example_externals_hull example_pos_angles
       (Rows (nn_coords example_externals_hull (site example_pos_angles))) [] []
       (zip (simplices example_hull) [[1, 1, 1], [1, 1, 1], [1, 1, 1], [1, 1, 1]])
     = Inr ([7 / 2, 7 / 2, 7 / 2, 7 / 2],
            [1 - (1 / 2 * 1.26 ^ 2 + 1 / 2 * 1.58 ^ 2 + 1 / 2 * 1.58 ^ 2) / (7 / 2),
             1 - (1 / 2 * 1.26 ^ 2 + 1 / 2 * 1.58 ^ 2 + 1 / 2 * 1.26 ^ 2) / (7 / 2),
             1 - (1 / 2 * 1.26 ^ 2 + 1 / 2 * 1.58 ^ 2 + 1 / 2 * 1.26 ^ 2) / (7 / 2),
             1 - (1 / 2 * 1.58 ^ 2 + 1 / 2 * 1.58 ^ 2 + 1 / 2 * 1.26 ^ 2) / (7 / 2)])"
proof -
  let ?ext = "example_externals_hull"
  have st: "site example_pos_angles = example_site"
    by (simp add: example_pos_angles_def example_pos_fresh_def PackingOfSite_init_def)
  have r29: "radius_of example_pos_angles 29 = Inr 1.26"
    and r40: "radius_of example_pos_angles 40 = Inr 1.58"
    by (simp_all add: radius_of_def example_pos_angles_def example_pos_fresh_def
          PackingOfSite_init_def example_externals_hull_def example_externals_def
          example_radii_def str_29)
  have h: "\<forall>(facet, angs) \<in> set (zip (simplices example_hull) [[1, 1, 1], [1, 1, 1], [1, 1, 1], [1, 1, 1]]).
             length facet = 3
           \<and> (\<forall>i \<in> set facet. i < length (nn_coords ?ext (site example_pos_angles))
                  \<and> i < length (neighbors (site example_pos_angles))
                  \<and> radius_of example_pos_angles (site_type (neighbors (site example_pos_angles) ! i))
                      = Inr ([1.26, 1.58, 1.58, 1.26] ! i))
           \<and> facet_area ?ext (nn_coords ?ext (site example_pos_angles)) facet \<noteq> 0"
    using r29 r40
    by (simp add: st example_site_def example_hull_def example_externals_hull_def
          example_externals_def facet_area_def)
  from facet_loop_rows [OF h, of "[]" "[]"]
  show ?thesis
    by (simp add: example_hull_def example_externals_hull_def example_externals_def facet_area_def)
qed

text \<open>
  C5, evaluated on the code. For the example site, after \<open>calculate_hull_facet_angles\<close>
  has built the hull and the triangular angles, \<open>analyze_hull_facet_interstice\<close> raises
  \<open>IndexError\<close> at its first facet, because it indexes \<open>np.array(self.site.nn_coords)\<close>,
  the method uncalled. On the coordinates that the call \<open>nn_coords()\<close> returns, the same
  loop yields the facet areas and the fractions \<open>1 - packed_area / area\<close> of the claim.
\<close>

theorem facet_interstice_raises:
  "calculate_hull_facet_angles example_externals_hull example_pos_fresh
     = Inr ([[1, 1, 1], [1, 1, 1], [1, 1, 1], [1, 1, 1]], example_pos_angles)
   \<and> analyze_hull_facet_interstice example_externals_hull example_pos_angles = Inl IndexError
   \<and> facet_loop example_externals_hull example_pos_angles
       (Rows (nn_coords example_externals_hull (site example_pos_angles))) [] []
       (zip (simplices example_hull) [[1, 1, 1], [1, 1, 1], [1, 1, 1], [1, 1, 1]])
     = Inr ([7 / 2, 7 / 2, 7 / 2, 7 / 2],
            [1 - (1 / 2 * 1.26 ^ 2 + 1 / 2 * 1.58 ^ 2 + 1 / 2 * 1.58 ^ 2) / (7 / 2),
             1 - (1 / 2 * 1.26 ^ 2 + 1 / 2 * 1.58 ^ 2 + 1 / 2 * 1.26 ^ 2) / (7 / 2),
             1 - (1 / 2 * 1.26 ^ 2 + 1 / 2 * 1.58 ^ 2 + 1 / 2 * 1.26 ^ 2) / (7 / 2),
             1 - (1 / 2 * 1.58 ^ 2 + 1 / 2 * 1.58 ^ 2 + 1 / 2 * 1.26 ^ 2) / (7 / 2)])"
proof -
  have a: "convex_hull_attr example_pos_angles = Some example_hull"
    and b: "triangular_angle_lists_attr example_pos_angles
              = Some [[1, 1, 1], [1, 1, 1], [1, 1, 1], [1, 1, 1]]"
    by (simp_all add: example_pos_angles_def)
  have c: "zip (simplices example_hull) [[1, 1, 1], [1, 1, 1], [1, 1, 1], [1, 1, 1::real]] \<noteq> []"
    by (simp add: example_hull_def)
  from analyze_hull_facet_interstice_raises [OF a b c] example_facet_angles example_facet_rows
  show ?thesis by blast
qed

section \<open>VolumeAreaInterstice.transform\<close>

lemma PackingOfSite_call_TypeError:
  "PackingOfSite_call ext s
     [''radii'', ''radius_type'', ''calc_volume_area'', ''calc_packing_efficiency''] r rt
   = Inl TypeError"
  by (simp add: PackingOfSite_call_def PackingOfSite_parameters_def)

lemma transform_rows_first_row:
  "transform_rows ext self site_dict fl ((idx, slots) # rest) =
     (case site_dict idx of
        None \<Rightarrow> Inl KeyError
      | Some s \<Rightarrow> (case lookup_sites site_dict slots of Inl e \<Rightarrow> Inl e | Inr nbrs \<Rightarrow> Inl TypeError))"
  by (simp add: PackingOfSite_call_TypeError Let_def split: option.splits sum.splits)

lemma lookup_sites_error:
  "lookup_sites site_dict slots = Inl e \<Longrightarrow> e = KeyError"
  by (induction slots arbitrary: e) (auto split: if_splits option.splits sum.splits)

lemma lookup_sites_resolves:
  "\<forall>x \<in> set slots. 0 < x \<longrightarrow> site_dict x \<noteq> None \<Longrightarrow> \<exists>nbrs. lookup_sites site_dict slots = Inr nbrs"
  by (induction slots) auto

lemma transform_rows_nonempty:
  "transform_rows ext self site_dict fl (row # rest) = Inl KeyError
   \<or> transform_rows ext self site_dict fl (row # rest) = Inl TypeError"
proof -
  obtain idx slots where r: "row = (idx, slots)" by (cases row)
  show ?thesis
    unfolding r transform_rows_first_row
    by (auto split: option.splits sum.splits dest: lookup_sites_error)
qed

lemma create_sites_defined:
  "(create_sites site_dict rows x \<noteq> None) = (site_dict x \<noteq> None \<or> x \<in> fst ` set rows)"
proof (induction rows arbitrary: site_dict)
  case Nil
  show ?case by simp
next
  case (Cons r rows)
  obtain idx c t where r: "r = (idx, c, t)" by (cases r) auto
  have "(create_sites site_dict (r # rows) x \<noteq> None)
          = (create_sites (site_dict(idx \<mapsto> Site idx c t [])) rows x \<noteq> None)"
    by (simp add: r)
  also have "\<dots> = ((site_dict(idx \<mapsto> Site idx c t [])) x \<noteq> None \<or> x \<in> fst ` set rows)"
    by (rule Cons.IH)
  also have "\<dots> = (site_dict x \<noteq> None \<or> x \<in> fst ` set (r # rows))"
    by (auto simp: r)
  finally show ?case .
qed

lemma transform_nonempty_is_error:
  "X \<noteq> [] \<Longrightarrow> \<exists>e. VolumeAreaInterstice_transform ext self lmp_df X = Inl e"
proof -
  assume "X \<noteq> []"
  then obtain row rest where x: "X = row # rest" by (cases X) auto
  from transform_rows_nonempty [of ext self "create_sites Map.empty lmp_df" "[]" row rest]
  show ?thesis
    unfolding x VolumeAreaInterstice_transform_def by auto
qed

lemma lookup_sites_unresolved:
  "\<exists>x \<in> set slots. 0 < x \<and> site_dict x = None \<Longrightarrow> lookup_sites site_dict slots = Inl KeyError"
proof (induction slots)
  case Nil
  then show ?case by simp
next
  case (Cons x xs)
  show ?case
  proof (cases "0 < x \<and> site_dict x = None")
    case True
    then show ?thesis by simp
  next
    case False
    with Cons.prems have "\<exists>y \<in> set xs. 0 < y \<and> site_dict y = None" by auto
    from Cons.IH [OF this] show ?thesis
      by (simp split: option.splits)
  qed
qed

text \<open>
  C9, as the code has it. On a non-empty table \<open>VolumeAreaInterstice.transform\<close> never
  returns a feature table: it raises while it processes the first row. When that row's
  own identifier and its positive neighbour identifiers are atoms of the snapshot, the
  exception is the \<open>TypeError\<close> of the call \<open>PackingOfSite(..., calc_volume_area=...,
  calc_packing_efficiency=...)\<close>, whose keywords \<open>__init__\<close> does not accept; the test
  for fewer than four neighbours comes after that call and is never reached. Otherwise
  it is the \<open>KeyError\<close> of the lookup in \<open>site_dict\<close>, which comes before the call.
\<close>

theorem transform_raises_on_first_row:
  "(\<forall>res. VolumeAreaInterstice_transform ext self lmp_df (row # rest) \<noteq> Inr res)
   \<and> (fst row \<in> fst ` set lmp_df \<and> (\<forall>x \<in> set (snd row). 0 < x \<longrightarrow> x \<in> fst ` set lmp_df)
        \<longrightarrow> VolumeAreaInterstice_transform ext self lmp_df (row # rest) = Inl TypeError)
   \<and> (fst row \<notin> fst ` set lmp_df \<or> (\<exists>x \<in> set (snd row). 0 < x \<and> x \<notin> fst ` set lmp_df)
        \<longrightarrow> VolumeAreaInterstice_transform ext self lmp_df (row # rest) = Inl KeyError)"
proof -
  let ?sd = "create_sites Map.empty lmp_df"
  obtain idx slots where r: "row = (idx, slots)" by (cases row)
  have d: "\<And>x. (?sd x \<noteq> None) = (x \<in> fst ` set lmp_df)"
    by (simp add: create_sites_defined del: not_None_eq)
  have 1: "\<forall>res. VolumeAreaInterstice_transform ext self lmp_df (row # rest) \<noteq> Inr res"
    using transform_nonempty_is_error [of "row # rest" ext self lmp_df] by auto
  have 2: "VolumeAreaInterstice_transform ext self lmp_df (row # rest) = Inl TypeError"
    if a: "fst row \<in> fst ` set lmp_df \<and> (\<forall>x \<in> set (snd row). 0 < x \<longrightarrow> x \<in> fst ` set lmp_df)"
  proof -
    from a r have "?sd idx \<noteq> None" unfolding d by simp
    then obtain s where s: "?sd idx = Some s" by auto
    from a r have "\<forall>x \<in> set slots. 0 < x \<longrightarrow> ?sd x \<noteq> None" unfolding d by simp
    from lookup_sites_resolves [OF this] obtain nbrs where n: "lookup_sites ?sd slots = Inr nbrs" ..
    show ?thesis
      unfolding VolumeAreaInterstice_transform_def r transform_rows_first_row
      using s n by simp
  qed
  have 3: "VolumeAreaInterstice_transform ext self lmp_df (row # rest) = Inl KeyError"
    if b: "fst row \<notin> fst ` set lmp_df \<or> (\<exists>x \<in> set (snd row). 0 < x \<and> x \<notin> fst ` set lmp_df)"
  proof (cases "?sd idx")
    case None
    then show ?thesis
      unfolding VolumeAreaInterstice_transform_def r transform_rows_first_row by simp
  next
    case (Some s)
    then have "?sd idx \<noteq> None" by simp
    then have "idx \<in> fst ` set lmp_df" unfolding d .
    with b r obtain x where x: "x \<in> set slots" "0 < x" "x \<notin> fst ` set lmp_df" by auto
    from x(3) have "?sd x = None" using d [of x] by simp
    with x have "\<exists>x \<in> set slots. 0 < x \<and> ?sd x = None" by blast
    from lookup_sites_unresolved [OF this] Some show ?thesis
      unfolding VolumeAreaInterstice_transform_def r transform_rows_first_row by simp
  qed
  from 1 2 3 show ?thesis by blast
qed

theorem transform_raises_on_first_row_witness:
  "VolumeAreaInterstice_transform (example_externals 2) example_featurizer example_lmp_df
     [(1, [2, 3, 0, 0]), (6, [0, 0, 0, 0])] = Inl TypeError
   \<and> VolumeAreaInterstice_transform (example_externals 2) example_featurizer example_lmp_df
     [(1, [2, 9, 0, 0]), (6, [0, 0, 0, 0])] = Inl KeyError"
proof
  show "VolumeAreaInterstice_transform (example_externals 2) example_featurizer example_lmp_df
     [(1, [2, 3, 0, 0]), (6, [0, 0, 0, 0])] = Inl TypeError"
    using transform_raises_on_first_row
      [of "example_externals 2" example_featurizer example_lmp_df "(1, [2, 3, 0, 0])"
          "[(6, [0, 0, 0, 0])]"]
    by (simp add: example_lmp_df_def)
  show "VolumeAreaInterstice_transform (example_externals 2) example_featurizer example_lmp_df
     [(1, [2, 9, 0, 0]), (6, [0, 0, 0, 0])] = Inl KeyError"
    using transform_raises_on_first_row
      [of "example_externals 2" example_featurizer example_lmp_df "(1, [2, 9, 0, 0])"
          "[(6, [0, 0, 0, 0])]"]
    by (simp add: example_lmp_df_def)
qed

text \<open>
  The claim C9 fails on the code: the table's first row is for an atom 7 that the
  snapshot does not have, and \<open>transform\<close> raises \<open>KeyError\<close> at \<open>site_dict[idx]\<close>, before
  the call of \<open>PackingOfSite\<close>, not \<open>TypeError\<close>.
\<close>

theorem transform_unknown_atom_counterexample:
  "create_sites Map.empty example_lmp_df 7 = None
   \<and> VolumeAreaInterstice_transform (example_externals 2) example_featurizer example_lmp_df
       [(7, [0, 0, 0, 0])] = Inl KeyError"
  by (simp add: VolumeAreaInterstice_transform_def transform_rows_first_row example_lmp_df_def
        del: transform_rows.simps)

text \<open>
  C1, evaluated on the code. For the isolated atom 6 (no valid neighbour) the expected
  row is 42 zeros, the width of \<open>get_feature_names()\<close> for the default configuration;
  \<open>transform\<close> raises \<open>TypeError\<close> instead.
\<close>

theorem transform_few_neighbors_raises:
  "VolumeAreaInterstice_transform (example_externals 0) example_featurizer example_lmp_df
     [(6, [0, 0, 0, 0])] = Inl TypeError
   \<and> length (VolumeAreaInterstice_get_feature_names example_featurizer) = 42"
  by (simp add: VolumeAreaInterstice_transform_def transform_rows_first_row example_lmp_df_def
        VolumeAreaInterstice_get_feature_names_def example_featurizer_def stats_def
        del: transform_rows.simps)

section \<open>Degenerate hulls\<close>

text \<open>
  C2, as the code has it. When \<open>ConvexHull\<close> rejects the neighbour coordinates of an
  atom, \<open>convex_hull\<close> passes the failure on, and so does every method that builds the
  hull (\<open>analyze_hull_facet_interstice\<close>, \<open>combine_neighbor_solid_angles\<close>,
  \<open>atomic_packing_efficiency\<close> once the cluster volume is computed). No caller catches
  it and no zero vector is substituted: \<open>transform\<close> on a non-empty table ends in an
  exception.
\<close>

theorem degenerate_hull_aborts:
  assumes "ConvexHull ext (nn_coords ext (site pos)) = Inl e"
    and "convex_hull_attr pos = None"
  shows "convex_hull ext pos = Inl e
     \<and> analyze_hull_facet_interstice ext pos = Inl e
     \<and> (neighbors_solid_angle_attr pos = None \<longrightarrow> combine_neighbor_solid_angles ext pos = Inl e)
     \<and> (\<forall>v. cluster_packed_volume pos = Inr v \<longrightarrow> atomic_packing_efficiency ext pos = Inl e)
     \<and> (\<forall>self lmp_df X. X \<noteq> [] \<longrightarrow> (\<exists>e'. VolumeAreaInterstice_transform ext self lmp_df X = Inl e'))"
proof -
  have ch: "convex_hull ext pos = Inl e"
    using assms by (simp add: convex_hull_def)
  have an: "analyze_hull_facet_interstice ext pos = Inl e"
    using ch by (simp add: analyze_hull_facet_interstice_def)
  have co: "neighbors_solid_angle_attr pos = None \<longrightarrow> combine_neighbor_solid_angles ext pos = Inl e"
    using ch by (simp add: combine_neighbor_solid_angles_def)
  have ap: "\<forall>v. cluster_packed_volume pos = Inr v \<longrightarrow> atomic_packing_efficiency ext pos = Inl e"
    using ch by (simp add: atomic_packing_efficiency_def)
  have tr: "\<forall>self lmp_df X. X \<noteq> [] \<longrightarrow> (\<exists>e'. VolumeAreaInterstice_transform ext self lmp_df X = Inl e')"
    using transform_nonempty_is_error by blast
  from ch an co ap tr show ?thesis by blast
qed

lemma example_flat_cluster:
  "cluster_packed_volume example_flat_pos
     = Inr (4 / 3 * pi * 1.26 ^ 3 + (1 / 3 * 1.26 ^ 3 + 1 / 3 * 1.58 ^ 3 + 1 / 3 * 1.58 ^ 3 + 1 / 3 * 1.26 ^ 3))"
  by (simp add: cluster_packed_volume_def example_flat_pos_def PackingOfSite_init_def
        example_flat_site_def radius_of_def example_externals_def example_radii_def str_29)

theorem degenerate_hull_aborts_witness:
  "convex_hull (example_externals 4) example_flat_pos = Inl QhullError
   \<and> analyze_hull_facet_interstice (example_externals 4) example_flat_pos = Inl QhullError
   \<and> atomic_packing_efficiency (example_externals 4) example_flat_pos = Inl QhullError
   \<and> (\<exists>e'. VolumeAreaInterstice_transform (example_externals 4) example_featurizer example_lmp_df
              [(1, [2, 3, 4, 5])] = Inl e')"
proof -
  have h1: "ConvexHull (example_externals 4) (nn_coords (example_externals 4) (site example_flat_pos))
              = Inl QhullError"
    by (simp add: example_externals_def)
  have h2: "convex_hull_attr example_flat_pos = None"
    by (simp add: example_flat_pos_def PackingOfSite_init_def)
  from degenerate_hull_aborts [OF h1 h2] example_flat_cluster
  show ?thesis by blast
qed

text \<open>
  The claim C2 fails on the code: atom 1 has four coplanar neighbours, \<open>ConvexHull\<close>
  rejects them, and \<open>transform\<close> returns no table with a zero row for it but raises.
\<close>

theorem degenerate_hull_counterexample:
  "lookup_sites (create_sites Map.empty example_lmp_df) [2, 3, 4, 5]
       = Inr (neighbors example_flat_site)
   \<and> length (neighbors example_flat_site) = 4
   \<and> ConvexHull (example_externals 4) (nn_coords (example_externals 4) example_flat_site)
       = Inl QhullError
   \<and> VolumeAreaInterstice_transform (example_externals 4) example_featurizer example_lmp_df
       [(1, [2, 3, 4, 5]), (6, [0, 0, 0, 0])] = Inl TypeError"
  by (simp add: VolumeAreaInterstice_transform_def transform_rows_first_row example_lmp_df_def
        example_flat_site_def example_externals_def del: transform_rows.simps)

section \<open>BOOP feature rows\<close>

lemma zip_append_nth:
  "length a = n \<Longrightarrow> length b = n \<Longrightarrow>
   map (\<lambda>(r, s). r @ s) (zip a b) = map (\<lambda>i. a ! i @ b ! i) [0..<n]"
  by (rule nth_equalityI) auto

lemma append_axis1_rows:
  "length a = n \<Longrightarrow> length b = n \<Longrightarrow>
   append_axis1 a b = Inr (map (\<lambda>i. a ! i @ b ! i) [0..<n])"
  by (simp add: append_axis1_def zip_append_nth)

lemma BOOP_names:
  "BOOP_get_feature_names dn =
     [''q_4 '' @ dn, ''q_6 '' @ dn, ''q_8 '' @ dn, ''q_10 '' @ dn,
      ''w_4 '' @ dn, ''w_6 '' @ dn, ''w_8 '' @ dn, ''w_10 '' @ dn,
      ''Coarse-grained q_4 '' @ dn, ''Coarse-grained q_6 '' @ dn,
      ''Coarse-grained q_8 '' @ dn, ''Coarse-grained q_10 '' @ dn,
      ''Coarse-grained w_4 '' @ dn, ''Coarse-grained w_6 '' @ dn,
      ''Coarse-grained w_8 '' @ dn, ''Coarse-grained w_10 '' @ dn]"
  by (simp add: BOOP_get_feature_names_def bq_tags_def)

text \<open>
  C8. When the kernel returns four arrays of \<open>n\<close> rows and four columns, the feature
  row of every atom is its row of \<open>Ql\<close>, then of \<open>Wlbar\<close>, then of the coarse-grained
  \<open>Ql\<close>, then of the coarse-grained \<open>Wlbar\<close>; the column names follow the same order,
  each block labelled with the orders 4, 6, 8, 10 in that order.
\<close>

theorem BOOP_row_order:
  assumes "calculate_boop X = (Ql, Wlbar, coarse_Ql, coarse_Wlbar)"
    and "length Ql = n" and "length Wlbar = n"
    and "length coarse_Ql = n" and "length coarse_Wlbar = n"
    and "\<forall>row \<in> set Ql \<union> set Wlbar \<union> set coarse_Ql \<union> set coarse_Wlbar. length row = 4"
  shows "BOOP_transform calculate_boop dn X =
     Inr \<lparr> data = map (\<lambda>i. Ql ! i @ Wlbar ! i @ coarse_Ql ! i @ coarse_Wlbar ! i) [0..<n],
           index = index X,
           columns =
             [''q_4 '' @ dn, ''q_6 '' @ dn, ''q_8 '' @ dn, ''q_10 '' @ dn,
              ''w_4 '' @ dn, ''w_6 '' @ dn, ''w_8 '' @ dn, ''w_10 '' @ dn,
              ''Coarse-grained q_4 '' @ dn, ''Coarse-grained q_6 '' @ dn,
              ''Coarse-grained q_8 '' @ dn, ''Coarse-grained q_10 '' @ dn,
              ''Coarse-grained w_4 '' @ dn, ''Coarse-grained w_6 '' @ dn,
              ''Coarse-grained w_8 '' @ dn, ''Coarse-grained w_10 '' @ dn] \<rparr>"
proof -
  let ?c1 = "map (\<lambda>i. Ql ! i @ Wlbar ! i) [0..<n]"
  let ?c2 = "map (\<lambda>i. ?c1 ! i @ coarse_Ql ! i) [0..<n]"
  let ?c3 = "map (\<lambda>i. ?c2 ! i @ coarse_Wlbar ! i) [0..<n]"
  have a1: "append_axis1 Ql Wlbar = Inr ?c1"
    using assms(2,3) by (rule append_axis1_rows)
  have a2: "append_axis1 ?c1 coarse_Ql = Inr ?c2"
    using assms(4) by (intro append_axis1_rows) simp_all
  have a3: "append_axis1 ?c2 coarse_Wlbar = Inr ?c3"
    using assms(5) by (intro append_axis1_rows) simp_all
  have c3: "?c3 = map (\<lambda>i. Ql ! i @ Wlbar ! i @ coarse_Ql ! i @ coarse_Wlbar ! i) [0..<n]"
    by simp
  have w: "\<And>i. i < n \<Longrightarrow> length (Ql ! i) = 4 \<and> length (Wlbar ! i) = 4
                 \<and> length (coarse_Ql ! i) = 4 \<and> length (coarse_Wlbar ! i) = 4"
    using assms(2-6) by (metis UnCI nth_mem)
  have wid: "list_all (\<lambda>row. length row = length (BOOP_get_feature_names dn)) ?c3"
    unfolding c3 BOOP_names using w by (simp add: list_all_iff)
  show ?thesis
    unfolding BOOP_transform_def assms(1)
    using a1 a2 a3 wid c3 by (simp add: BOOP_names del: map_map upt_Suc)
qed

theorem BOOP_row_order_witness:
  "BOOP_transform example_calculate_boop ''voro'' example_table =
     Inr \<lparr> data = [[1, 2, 3, 4, 5, 6, 7, 8, 9, 10, 11, 12, 13, 14, 15, 16],
                   [21, 22, 23, 24, 25, 26, 27, 28, 29, 30, 31, 32, 33, 34, 35, 36]],
           index = [1, 2],
           columns =
             [''q_4 voro'', ''q_6 voro'', ''q_8 voro'', ''q_10 voro'',
              ''w_4 voro'', ''w_6 voro'', ''w_8 voro'', ''w_10 voro'',
              ''Coarse-grained q_4 voro'', ''Coarse-grained q_6 voro'',
              ''Coarse-grained q_8 voro'', ''Coarse-grained q_10 voro'',
              ''Coarse-grained w_4 voro'', ''Coarse-grained w_6 voro'',
              ''Coarse-grained w_8 voro'', ''Coarse-grained w_10 voro''] \<rparr>"
proof -
  have u: "[0..<2::nat] = [0, 1]" by code_simp
  show ?thesis
  using BOOP_row_order
    [of example_calculate_boop example_table
        "[[1, 2, 3, 4], [21, 22, 23, 24]]" "[[5, 6, 7, 8], [25, 26, 27, 28]]"
        "[[9, 10, 11, 12], [29, 30, 31, 32]]" "[[13, 14, 15, 16], [33, 34, 35, 36]]"
        2 "''voro''"]
    by (simp add: example_calculate_boop_def example_table_def u)
qed

section \<open>CharacterMotif: dependency on the Voronoi index and motif indicators\<close>

lemma classify_motifs_log:
  "filter is_Call_VoroIndex (fst (classify_motifs ext self n X)) = []"
  by (simp add: classify_motifs_def Let_def split: option.splits sum.splits)

text \<open>
  C7. When the column \<open>"Voronoi idx5 voro"\<close> is present in the input table,
  \<open>CharacterMotif.transform\<close> classifies on that table and never calls the Voronoi Index
  engine. When it is missing, the first call is the Index engine on the input table,
  there is no second such call, and the classification runs on the table the engine
  returned. The kernel is called once, with the index columns of the table in use. \<open>fit\<close>
  computes nothing when \<open>check_dependency\<close> finds the column.
\<close>

theorem motif_reuses_voronoi_index:
  "(''Voronoi idx5 voro'' \<in> set (columns X) \<longrightarrow>
      CharacterMotif_transform ext self X = classify_motifs ext self (length (data X)) X
      \<and> filter is_Call_VoroIndex (fst (CharacterMotif_transform ext self X)) = [])
   \<and> (''Voronoi idx5 voro'' \<notin> set (columns X) \<longrightarrow>
      (\<exists>rest. fst (CharacterMotif_transform ext self X) = Call_VoroIndex X # rest
             \<and> filter is_Call_VoroIndex rest = [])
      \<and> (\<forall>X1. VoroIndex_fit_transform ext X = Inr X1 \<longrightarrow>
             CharacterMotif_transform ext self X =
               (Call_VoroIndex X # fst (classify_motifs ext self (length (data X)) X1),
                snd (classify_motifs ext self (length (data X)) X1))))
   \<and> (\<forall>targets. target_voro_idx self = Some targets \<longrightarrow>
        fst (classify_motifs ext self n X) =
          [Call_character_motif
             (select_columns X (filter (\<lambda>col. startswith col ''Voronoi idx'') (columns X)))])
   \<and> (check_dependency ext (voro_depend_cols self) X = None
        \<and> check_dependency ext [''Voronoi idx5 voro''] X = None \<longrightarrow>
        CharacterMotif_fit ext self X =
          ([], Inr (self\<lparr>voro_depend_cols := [''Voronoi idx5 voro'']\<rparr>)))"
proof (intro conjI impI allI)
  assume p: "''Voronoi idx5 voro'' \<in> set (columns X)"
  then show t: "CharacterMotif_transform ext self X = classify_motifs ext self (length (data X)) X"
    by (simp add: CharacterMotif_transform_def)
  show "filter is_Call_VoroIndex (fst (CharacterMotif_transform ext self X)) = []"
    unfolding t by (rule classify_motifs_log)
next
  assume a: "''Voronoi idx5 voro'' \<notin> set (columns X)"
  show "\<exists>rest. fst (CharacterMotif_transform ext self X) = Call_VoroIndex X # rest
             \<and> filter is_Call_VoroIndex rest = []"
  proof (cases "VoroIndex_fit_transform ext X")
    case (Inl e)
    with a show ?thesis by (simp add: CharacterMotif_transform_def)
  next
    case (Inr X1)
    with a have "fst (CharacterMotif_transform ext self X)
            = Call_VoroIndex X # fst (classify_motifs ext self (length (data X)) X1)"
      by (simp add: CharacterMotif_transform_def split: prod.splits)
    then show ?thesis using classify_motifs_log by blast
  qed
next
  fix X1
  assume "''Voronoi idx5 voro'' \<notin> set (columns X)" and "VoroIndex_fit_transform ext X = Inr X1"
  then show "CharacterMotif_transform ext self X =
               (Call_VoroIndex X # fst (classify_motifs ext self (length (data X)) X1),
                snd (classify_motifs ext self (length (data X)) X1))"
    by (simp add: CharacterMotif_transform_def split: prod.splits)
next
  fix targets
  assume "target_voro_idx self = Some targets"
  then show "fst (classify_motifs ext self n X) =
          [Call_character_motif
             (select_columns X (filter (\<lambda>col. startswith col ''Voronoi idx'') (columns X)))]"
    by (simp add: classify_motifs_def Let_def split: sum.splits)
next
  assume "check_dependency ext (voro_depend_cols self) X = None
        \<and> check_dependency ext [''Voronoi idx5 voro''] X = None"
  then show "CharacterMotif_fit ext self X =
          ([], Inr (self\<lparr>voro_depend_cols := [''Voronoi idx5 voro'']\<rparr>))"
    by (simp add: CharacterMotif_fit_def Let_def)
qed

lemma example_index_values:
  "select_columns example_table
     (filter (\<lambda>col. startswith col ''Voronoi idx'') (columns example_table))
   = [[0, 0, 12, 0, 0], [0, 0, 12, 2, 0]]"
  by (simp add: select_columns_def example_table_def startswith_def)

theorem motif_reuses_voronoi_index_witness:
  "CharacterMotif_transform example_motif_externals
       (CharacterMotif_init example_raw_table 3 None 1) example_table
     = classify_motifs example_motif_externals
         (CharacterMotif_init example_raw_table 3 None 1) 2 example_table
   \<and> fst (CharacterMotif_transform example_motif_externals
            (CharacterMotif_init example_raw_table 3 None 1) example_table)
       = [Call_character_motif [[0, 0, 12, 0, 0], [0, 0, 12, 2, 0]]]
   \<and> fst (CharacterMotif_transform example_motif_externals
            (CharacterMotif_init example_raw_table 3 None 1) example_raw_table)
       = [Call_VoroIndex example_raw_table,
          Call_character_motif [[0, 0, 12, 0, 0], [0, 0, 12, 2, 0]]]
   \<and> fst (CharacterMotif_fit example_motif_externals
            (CharacterMotif_init example_raw_table 3 None 1) example_table) = []"
proof -
  let ?self = "CharacterMotif_init example_raw_table 3 None 1"
  let ?ext = "example_motif_externals"
  have p: "''Voronoi idx5 voro'' \<in> set (columns example_table)"
    by (simp add: example_table_def)
  have a: "''Voronoi idx5 voro'' \<notin> set (columns example_raw_table)"
    by (simp add: example_raw_table_def)
  have v: "VoroIndex_fit_transform ?ext example_raw_table = Inr example_table"
    by (simp add: example_motif_externals_def)
  have t: "target_voro_idx ?self = Some [[0, 0, 12, 0, 0], [0, 0, 12, 4, 0]]"
    by (simp add: CharacterMotif_init_def)
  have c: "check_dependency ?ext (voro_depend_cols ?self) example_table = None
        \<and> check_dependency ?ext [''Voronoi idx5 voro''] example_table = None"
    by (simp add: example_motif_externals_def CharacterMotif_init_def example_table_def)
  have l: "length (data example_table) = 2" "length (data example_raw_table) = 2"
    by (simp_all add: example_table_def example_raw_table_def)
  note m1 = motif_reuses_voronoi_index [where X = example_table and ext = "?ext" and self = "?self" and n = 2]
  note m2 = motif_reuses_voronoi_index [where X = example_raw_table and ext = "?ext" and self = "?self" and n = 2]
  from m1 p t c have 1: "CharacterMotif_transform ?ext ?self example_table
     = classify_motifs ?ext ?self 2 example_table"
    and 2: "fst (classify_motifs ?ext ?self 2 example_table)
       = [Call_character_motif [[0, 0, 12, 0, 0], [0, 0, 12, 2, 0]]]"
    and 4: "fst (CharacterMotif_fit ?ext ?self example_table) = []"
    by (simp_all add: l example_index_values)
  from m2 a v have 3: "fst (CharacterMotif_transform ?ext ?self example_raw_table)
       = Call_VoroIndex example_raw_table # fst (classify_motifs ?ext ?self 2 example_table)"
    by (simp add: l)
  from 1 2 3 4 show ?thesis by simp
qed

text \<open>
  With the default targets and \<open>frank_kasper = 1\<close>, whatever the kernel puts into its
  reserved column: every atom's row is the indicator of \<open><0,0,12,0,0>\<close> (1 exactly when
  the index vector equals it), the indicator of \<open><0,0,12,4,0>\<close> (likewise), the kernel's
  reserved column, which \<open>transform\<close> passes through under the name
  \<open>'is polytetrahedral voro'\<close>, and last the logical OR of the two match indicators,
  which \<open>transform\<close> derives itself and \<open>get_feature_names\<close> calls
  \<open>'is <0,0,12,0/4,0> voro'\<close>.
\<close>

lemma motif_indicators:
  assumes "''Voronoi idx5 voro'' \<in> set (columns X)"
  shows "snd (CharacterMotif_transform (ext\<lparr>character_motif := character_motif_spec fk\<rparr>)
                (CharacterMotif_init df em None 1) X) =
     Inr \<lparr> data =
             map (\<lambda>v. [if v = [0, 0, 12, 0, 0] then 1 else 0,
                       if v = [0, 0, 12, 4, 0] then 1 else 0,
                       fk v,
                       if v = [0, 0, 12, 0, 0] \<or> v = [0, 0, 12, 4, 0] then 1 else 0])
               (select_columns X (filter (\<lambda>col. startswith col ''Voronoi idx'') (columns X))),
           index = index X,
           columns = [''is <0,0,12,0,0> voro'', ''is <0,0,12,4,0> voro'',
                      ''is polytetrahedral voro'', ''is <0,0,12,0/4,0> voro''] \<rparr>"
  using assms
  by (simp add: CharacterMotif_transform_def classify_motifs_def CharacterMotif_init_def
        CharacterMotif_get_feature_names_def character_motif_spec_def Let_def)

lemma motif_indicators_example:
  "snd (CharacterMotif_transform example_motif_externals
          (CharacterMotif_init example_raw_table 3 None 1) example_table) =
     Inr \<lparr> data = [[1, 0, 1, 1], [0, 0, 0, 0]],
           index = [1, 2],
           columns = [''is <0,0,12,0,0> voro'', ''is <0,0,12,4,0> voro'',
                      ''is polytetrahedral voro'', ''is <0,0,12,0/4,0> voro''] \<rparr>"
proof -
  have p: "''Voronoi idx5 voro'' \<in> set (columns example_table)"
    by (simp add: example_table_def)
  have e: "example_motif_externals
             \<lparr>character_motif := character_motif_spec
                (\<lambda>v. if v = [0, 0, 12, 0, 0] \<or> v = [0, 0, 12, 4, 0] then 1 else 0)\<rparr>
             = example_motif_externals"
    by (simp add: example_motif_externals_def)
  have i: "index example_table = [1, 2]"
    by (simp add: example_table_def)
  from motif_indicators [OF p, where ext = example_motif_externals
      and fk = "\<lambda>v. if v = [0, 0, 12, 0, 0] \<or> v = [0, 0, 12, 4, 0] then 1 else 0"
      and df = example_raw_table and em = 3]
  show ?thesis
    by (simp add: e i example_index_values)
qed

text \<open>
  C6, evaluated on the code. When the targets are passed to the constructor, here the
  two canonical ones themselves, \<open>__init__\<close> assigns no attribute \<open>target_voro_idx\<close>;
  \<open>transform\<close> then raises \<open>AttributeError\<close> at \<open>len(self.target_voro_idx)\<close>, before it
  calls the kernel, and \<open>get_feature_names\<close> raises too: no indicator is set for any
  atom.
\<close>

theorem motif_explicit_targets_raise:
  "target_voro_idx
      (CharacterMotif_init example_raw_table 3 (Some [[0, 0, 12, 0, 0], [0, 0, 12, 4, 0]]) 1)
     = None
   \<and> CharacterMotif_transform example_motif_externals
       (CharacterMotif_init example_raw_table 3 (Some [[0, 0, 12, 0, 0], [0, 0, 12, 4, 0]]) 1)
       example_table
     = ([], Inl AttributeError)
   \<and> CharacterMotif_get_feature_names
       (CharacterMotif_init example_raw_table 3 (Some [[0, 0, 12, 0, 0], [0, 0, 12, 4, 0]]) 1)
     = Inl AttributeError"
  by (simp add: CharacterMotif_transform_def classify_motifs_def CharacterMotif_init_def
        CharacterMotif_get_feature_names_def Let_def example_table_def)

end
